theory Spec2Isabelle
  imports Main
begin

section \<open>Data model (models/Session.ts, models/User.ts, errors/AppError.ts)\<close>

text \<open>
  A session document of \<^verbatim>\<open>SessionDocument\<close>. \<^verbatim>\<open>userId\<close> and a user's \<^verbatim>\<open>_id\<close> are
  ObjectIds; the model writes an ObjectId as its rendering \<^verbatim>\<open>String(id)\<close>, the value
  \<^verbatim>\<open>issueTokenPair\<close> signs into \<^verbatim>\<open>sub\<close>. A string the handlers hand to a query in
  the place of an ObjectId is cast first (\<open>castObjectId\<close> below), and the query throws
  where the cast fails. Dates are milliseconds since the epoch
  (\<^verbatim>\<open>Date.now()\<close>). The \<^verbatim>\<open>createdAt\<close>/\<^verbatim>\<open>updatedAt\<close> stamps of
  \<^verbatim>\<open>timestamps: true\<close> are left out: no code path reads them.
\<close>

datatype SessionStatus = active | consumed | revoked

record SessionDocument =
  userId :: string
  deviceId :: string
  familyId :: string
  tokenId :: string
  refreshTokenHash :: string
  parentTokenHash :: "string option"
  replacedByHash :: "string option"
  status :: SessionStatus
  consumedAt :: "nat option"
  revokedAt :: "nat option"
  revokedReason :: "string option"
  expiresAt :: nat

datatype Role = USER | ADMIN

record UserDocument =
  user_id :: string
  email :: string
  passwordHash :: string
  role :: Role

text \<open>
  The error classes of \<^verbatim>\<open>AppError.ts\<close>: \<^verbatim>\<open>AppError(message, statusCode, code)\<close> and its
  subclasses \<^verbatim>\<open>ValidationError\<close> (400) and \<^verbatim>\<open>AuthError\<close> (401), each carrying its
  message. \<open>DuplicateKey\<close> is the store's rejection of an insert that violates the
  \<^verbatim>\<open>unique: true\<close> index on \<^verbatim>\<open>refreshTokenHash\<close>; it carries the offending hash.
  \<open>CastError\<close> is Mongoose's error for a query value that cannot be cast to the type
  of its path; it carries the path.
\<close>

datatype app_error =
    AppError string nat string
  | ValidationError string
  | AuthError string
  | DuplicateKey string
  | CastError string

section \<open>The session collection\<close>

text \<open>
  The collection is the list of its documents in insertion order; a document's position
  is its identity (\<^verbatim>\<open>_id\<close>): no operation of the auth router deletes or reorders
  documents. (The TTL index on \<^verbatim>\<open>expiresAt\<close> lets the store delete expired documents in
  the background; that sweep is not part of the router.)
\<close>

type_synonym ledger = "SessionDocument list"

text \<open>\<^verbatim>\<open>Session.updateMany(filter, {$set: ...})\<close>: every matching document is updated.\<close>

definition updateMany ::
  "(SessionDocument \<Rightarrow> bool) \<Rightarrow> (SessionDocument \<Rightarrow> SessionDocument) \<Rightarrow> ledger \<Rightarrow> ledger" where
  "updateMany flt upd L = map (\<lambda>s. if flt s then upd s else s) L"

text \<open>\<^verbatim>\<open>Session.findOne(filter)\<close>: the first matching document, by position.\<close>

fun findOne :: "(SessionDocument \<Rightarrow> bool) \<Rightarrow> ledger \<Rightarrow> nat option" where
  "findOne flt [] = None"
| "findOne flt (s # L) = (if flt s then Some 0 else map_option Suc (findOne flt L))"

text \<open>
  \<^verbatim>\<open>Session.create(doc)\<close>: appends the document, unless another document already has
  its \<^verbatim>\<open>refreshTokenHash\<close> (unique index), in which case the insert is rejected.
  The schema's \<^verbatim>\<open>required\<close> validators are left out: they accept every document
  the handlers build from non-empty ids.
\<close>

definition create :: "SessionDocument \<Rightarrow> ledger \<Rightarrow> app_error + ledger" where
  "create doc L =
     (if list_ex (\<lambda>s. refreshTokenHash s = refreshTokenHash doc) L
      then Inl (DuplicateKey (refreshTokenHash doc))
      else Inr (L @ [doc]))"

text \<open>
  \<^verbatim>\<open>revokeAllUserSessions(userId, reason)\<close> (routes/auth.ts, lines 17-28): the filter is
  \<^verbatim>\<open>{ userId, status: { $ne: 'revoked' } }\<close>. \<open>now\<close> is the value of \<^verbatim>\<open>new Date()\<close>.
  \<open>uid\<close> is the ObjectId the filter's \<^verbatim>\<open>userId\<close> is cast to: \<^verbatim>\<open>/refresh\<close> calls the
  function with \<^verbatim>\<open>payload.sub\<close> only after its \<^verbatim>\<open>findOne\<close> has cast that string.
\<close>

definition revokeAllUserSessions :: "nat \<Rightarrow> string \<Rightarrow> string \<Rightarrow> ledger \<Rightarrow> ledger" where
  "revokeAllUserSessions now uid reason L =
     updateMany (\<lambda>s. userId s = uid \<and> status s \<noteq> revoked)
       (\<lambda>s. s\<lparr>status := revoked, revokedAt := Some now, revokedReason := Some reason\<rparr>) L"

section \<open>Credential signer (auth/tokens.ts)\<close>

text \<open>
  The payload types of \<^verbatim>\<open>tokens.ts\<close>. \<^verbatim>\<open>jwt.verify\<close> returns whatever object was
  signed, so a verified payload is an access payload, a refresh payload, or something
  else (\<^verbatim>\<open>type\<close> neither \<^verbatim>\<open>'access'\<close> nor \<^verbatim>\<open>'refresh'\<close>).
\<close>

record RefreshPayload =
  sub :: string
  pDeviceId :: string
  pFamilyId :: string
  pTokenId :: string

datatype jwt_payload =
    AccessPayload string Role
  | RefreshTokenPayload RefreshPayload
  | OtherPayload

text \<open>
  What the module takes from outside the repository: the two secrets of
  \<^verbatim>\<open>process.env\<close> (absent when undefined), \<^verbatim>\<open>jwt.sign(payload, secret, {expiresIn})\<close>
  and \<^verbatim>\<open>jwt.verify(token, secret)\<close> of jsonwebtoken (both read the clock, which is an
  argument here; \<open>expiresIn\<close> is in seconds; \<open>jwtVerify\<close> is \<open>None\<close> where
  \<^verbatim>\<open>jwt.verify\<close> throws), the SHA-256 hex digest of \<^verbatim>\<open>crypto\<close>,
  \<^verbatim>\<open>bcrypt.compare\<close>, and the cast of a string to an ObjectId that Mongoose applies
  to the \<^verbatim>\<open>userId\<close> of a Session query and to the argument of \<^verbatim>\<open>User.findById\<close>
  (\<open>castObjectId\<close> gives the id, written as its rendering, or \<open>None\<close> where the string
  is not an ObjectId and the query throws \<^verbatim>\<open>CastError\<close>). Nothing is assumed about them.
\<close>

record env =
  JWT_ACCESS_SECRET :: "string option"
  JWT_REFRESH_SECRET :: "string option"
  jwtSign :: "jwt_payload \<Rightarrow> string \<Rightarrow> nat \<Rightarrow> nat \<Rightarrow> string"
  jwtVerify :: "string \<Rightarrow> string \<Rightarrow> nat \<Rightarrow> jwt_payload option"
  sha256hex :: "string \<Rightarrow> string"
  bcryptCompare :: "string \<Rightarrow> string \<Rightarrow> bool"
  castObjectId :: "string \<Rightarrow> string option"

definition ACCESS_TOKEN_TTL :: nat where
  "ACCESS_TOKEN_TTL = 15 * 60"

definition REFRESH_TOKEN_TTL :: nat where
  "REFRESH_TOKEN_TTL = 7 * 24 * 60 * 60"

text \<open>\<^verbatim>\<open>readSecret(name)\<close>, applied to the value of \<^verbatim>\<open>process.env[name]\<close>.\<close>

definition readSecret :: "string \<Rightarrow> string option \<Rightarrow> app_error + string" where
  "readSecret name v =
     (case v of
        None \<Rightarrow> Inl (AppError (name @ '' is not configured'') 500 ''AUTH_CONFIG_ERROR'')
      | Some secret \<Rightarrow>
          if secret = [] \<or> length secret < 32
          then Inl (AppError (name @ '' is not configured'') 500 ''AUTH_CONFIG_ERROR'')
          else Inr secret)"

definition hashToken :: "env \<Rightarrow> string \<Rightarrow> string" where
  "hashToken e token = sha256hex e token"

record TokenPair =
  accessToken :: string
  refreshToken :: string
  refreshExpiresAt :: nat

definition issueTokenPair ::
  "env \<Rightarrow> nat \<Rightarrow> string \<Rightarrow> Role \<Rightarrow> string \<Rightarrow> string \<Rightarrow> string \<Rightarrow> app_error + TokenPair" where
  "issueTokenPair e now uid rl dev fam tid =
     (case readSecret ''JWT_ACCESS_SECRET'' (JWT_ACCESS_SECRET e) of
        Inl err \<Rightarrow> Inl err
      | Inr accessSecret \<Rightarrow>
     (case readSecret ''JWT_REFRESH_SECRET'' (JWT_REFRESH_SECRET e) of
        Inl err \<Rightarrow> Inl err
      | Inr refreshSecret \<Rightarrow>
          Inr \<lparr>accessToken = jwtSign e (AccessPayload uid rl) accessSecret ACCESS_TOKEN_TTL now,
               refreshToken =
                 jwtSign e
                   (RefreshTokenPayload
                      \<lparr>sub = uid, pDeviceId = dev, pFamilyId = fam, pTokenId = tid\<rparr>)
                   refreshSecret REFRESH_TOKEN_TTL now,
               refreshExpiresAt = now + 7 * 24 * 60 * 60 * 1000\<rparr>))"

text \<open>
  \<^verbatim>\<open>verifyRefreshToken(token)\<close>. \<^verbatim>\<open>readSecret\<close> is called inside the \<^verbatim>\<open>try\<close>, and
  its \<^verbatim>\<open>AppError\<close> is not an \<^verbatim>\<open>AuthError\<close>, so a missing secret is reported like a
  failed verification; only the \<^verbatim>\<open>'Invalid token type'\<close> error is rethrown as it is.
\<close>

definition verifyRefreshToken :: "env \<Rightarrow> nat \<Rightarrow> string \<Rightarrow> app_error + RefreshPayload" where
  "verifyRefreshToken e now token =
     (case readSecret ''JWT_REFRESH_SECRET'' (JWT_REFRESH_SECRET e) of
        Inl err \<Rightarrow> Inl (AuthError ''Invalid or expired refresh token'')
      | Inr secret \<Rightarrow>
          (case jwtVerify e token secret now of
             None \<Rightarrow> Inl (AuthError ''Invalid or expired refresh token'')
           | Some (RefreshTokenPayload payload) \<Rightarrow> Inr payload
           | Some _ \<Rightarrow> Inl (AuthError ''Invalid token type'')))"

section \<open>The auth router (routes/auth.ts)\<close>

text \<open>The \<^verbatim>\<open>data\<close> object of a successful \<^verbatim>\<open>/login\<close> or \<^verbatim>\<open>/refresh\<close> response.\<close>

record AuthResponse =
  resAccessToken :: string
  resRefreshToken :: string
  resDeviceId :: string

text \<open>
  \<^verbatim>\<open>User.findOne({ email })\<close> and \<^verbatim>\<open>User.findById(id)\<close> on the user collection;
  \<^verbatim>\<open>findById\<close> casts its argument to an ObjectId.
\<close>

definition findUserByEmail :: "UserDocument list \<Rightarrow> string \<Rightarrow> UserDocument option" where
  "findUserByEmail users em = find (\<lambda>u. email u = em) users"

definition findById ::
  "env \<Rightarrow> UserDocument list \<Rightarrow> string \<Rightarrow> app_error + UserDocument option" where
  "findById e users idString =
     (case castObjectId e idString of
        None \<Rightarrow> Inl (CastError ''_id'')
      | Some uid \<Rightarrow> Inr (find (\<lambda>u. user_id u = uid) users))"

text \<open>
  The \<^verbatim>\<open>updateMany\<close> of \<^verbatim>\<open>/login\<close> (lines 93-102): filter
  \<^verbatim>\<open>{ userId: user._id, deviceId, status: 'active' }\<close>, reason \<^verbatim>\<open>'DEVICE_RELOGIN'\<close>.
\<close>

definition revokeDeviceSessions :: "nat \<Rightarrow> string \<Rightarrow> string \<Rightarrow> ledger \<Rightarrow> ledger" where
  "revokeDeviceSessions now uid dev L =
     updateMany (\<lambda>s. userId s = uid \<and> deviceId s = dev \<and> status s = active)
       (\<lambda>s. s\<lparr>status := revoked, revokedAt := Some now,
              revokedReason := Some ''DEVICE_RELOGIN''\<rparr>) L"

text \<open>The document \<^verbatim>\<open>Session.create\<close> receives; the schema leaves the other fields unset.\<close>

definition newSession ::
  "string \<Rightarrow> string \<Rightarrow> string \<Rightarrow> string \<Rightarrow> string \<Rightarrow> string option \<Rightarrow> nat \<Rightarrow> SessionDocument" where
  "newSession uid dev fam tid h parent expires =
     \<lparr>userId = uid, deviceId = dev, familyId = fam, tokenId = tid, refreshTokenHash = h,
      parentTokenHash = parent, replacedByHash = None, status = active, consumedAt = None,
      revokedAt = None, revokedReason = None, expiresAt = expires\<rparr>"

text \<open>
  \<^verbatim>\<open>router.post('/login')\<close>. \<open>em\<close>, \<open>password\<close> and \<open>providedDeviceId\<close> are the three
  constants the handler computes from the request body (trimmed, the address in lower
  case). \<open>genDeviceId\<close>, \<open>genFamilyId\<close> and \<open>genTokenId\<close> are what
  \<^verbatim>\<open>generateDeviceId()\<close>, \<^verbatim>\<open>generateFamilyId()\<close> and \<^verbatim>\<open>generateTokenId()\<close>
  (\<^verbatim>\<open>crypto.randomUUID()\<close>) return in this request, and \<open>now\<close> is the clock of the
  request. The handler returns its response or the error it throws, and the
  collection as it leaves it.
\<close>

definition login ::
  "env \<Rightarrow> UserDocument list \<Rightarrow> nat \<Rightarrow> string \<Rightarrow> string \<Rightarrow> string \<Rightarrow>
   string \<Rightarrow> string \<Rightarrow> string \<Rightarrow> ledger \<Rightarrow> (app_error + AuthResponse) \<times> ledger" where
  "login e users now genDeviceId genFamilyId genTokenId em password providedDeviceId L =
     (if em = [] \<or> password = []
      then (Inl (ValidationError ''email and password are required''), L)
      else (case findUserByEmail users em of
        None \<Rightarrow> (Inl (AuthError ''Invalid email or password''), L)
      | Some user \<Rightarrow>
          (if \<not> bcryptCompare e password (passwordHash user)
           then (Inl (AuthError ''Invalid email or password''), L)
           else
            (let dev = (if providedDeviceId \<noteq> [] then providedDeviceId else genDeviceId)
             in (case issueTokenPair e now (user_id user) (role user) dev genFamilyId genTokenId of
               Inl err \<Rightarrow> (Inl err, L)
             | Inr tokenPair \<Rightarrow>
                (let L1 = revokeDeviceSessions now (user_id user) dev L
                 in (case create
                      (newSession (user_id user) dev genFamilyId genTokenId
                         (hashToken e (refreshToken tokenPair)) None (refreshExpiresAt tokenPair))
                      L1 of
                   Inl err \<Rightarrow> (Inl err, L1)
                 | Inr L2 \<Rightarrow>
                     (Inr \<lparr>resAccessToken = accessToken tokenPair,
                           resRefreshToken = refreshToken tokenPair,
                           resDeviceId = dev\<rparr>, L2))))))))"

text \<open>
  The filter of the \<^verbatim>\<open>Session.findOne\<close> of \<^verbatim>\<open>/refresh\<close> (lines 133-138), as the
  store applies it: a document matches on \<^verbatim>\<open>userId\<close> when its id is the ObjectId
  \<^verbatim>\<open>payload.sub\<close> is cast to.
\<close>

definition refreshFilter :: "env \<Rightarrow> string \<Rightarrow> RefreshPayload \<Rightarrow> SessionDocument \<Rightarrow> bool" where
  "refreshFilter e tokenHash payload s \<longleftrightarrow>
     refreshTokenHash s = tokenHash \<and> castObjectId e (sub payload) = Some (userId s) \<and>
     familyId s = pFamilyId payload \<and> tokenId s = pTokenId payload"

text \<open>
  The two \<^verbatim>\<open>currentSession.save()\<close> of \<^verbatim>\<open>/refresh\<close>: the document found at position
  \<open>i\<close> gets the fields the handler assigned (lines 151-154 and 174-177).
\<close>

definition saveExpired :: "nat \<Rightarrow> nat \<Rightarrow> ledger \<Rightarrow> ledger" where
  "saveExpired now i L =
     L[i := (L ! i)\<lparr>status := revoked, revokedAt := Some now,
                    revokedReason := Some ''REFRESH_TOKEN_EXPIRED''\<rparr>]"

definition saveConsumed :: "nat \<Rightarrow> string \<Rightarrow> nat \<Rightarrow> ledger \<Rightarrow> ledger" where
  "saveConsumed now nextHash i L =
     L[i := (L ! i)\<lparr>status := consumed, consumedAt := Some now,
                    replacedByHash := Some nextHash\<rparr>]"

text \<open>
  \<^verbatim>\<open>router.post('/refresh')\<close>. \<open>presented\<close> is the constant \<^verbatim>\<open>refreshToken\<close> the
  handler computes from the request body, \<open>nextTokenId\<close> is what
  \<^verbatim>\<open>generateTokenId()\<close> returns in this request. \<^verbatim>\<open>Session.findOne\<close> throws
  \<^verbatim>\<open>CastError\<close> where \<^verbatim>\<open>payload.sub\<close> is not an ObjectId; otherwise \<open>uid\<close> is the
  ObjectId every later query of the handler casts \<^verbatim>\<open>payload.sub\<close> to.
\<close>

definition refresh ::
  "env \<Rightarrow> UserDocument list \<Rightarrow> nat \<Rightarrow> string \<Rightarrow> string \<Rightarrow> ledger \<Rightarrow>
   (app_error + AuthResponse) \<times> ledger" where
  "refresh e users now nextTokenId presented L =
     (if presented = [] then (Inl (ValidationError ''refreshToken is required''), L)
      else (case verifyRefreshToken e now presented of
        Inl err \<Rightarrow> (Inl err, L)
      | Inr payload \<Rightarrow>
         (let tokenHash = hashToken e presented
          in (case castObjectId e (sub payload) of
            None \<Rightarrow> (Inl (CastError ''userId''), L)
          | Some uid \<Rightarrow>
          (case findOne (refreshFilter e tokenHash payload) L of
            None \<Rightarrow>
              (Inl (AuthError ''Refresh token is invalid''),
               revokeAllUserSessions now uid ''REFRESH_TOKEN_REUSE_OR_UNKNOWN'' L)
          | Some i \<Rightarrow>
             (if status (L ! i) \<noteq> active
              then (Inl (AuthError ''Refresh token reuse detected. All sessions revoked.''),
                    revokeAllUserSessions now uid ''REFRESH_TOKEN_REUSE_DETECTED'' L)
              else if expiresAt (L ! i) \<le> now
              then (Inl (AuthError ''Refresh token is expired''), saveExpired now i L)
              else (case findById e users (sub payload) of
                Inl err \<Rightarrow> (Inl err, L)
              | Inr None \<Rightarrow>
                  (Inl (AuthError ''User account not found''),
                   revokeAllUserSessions now uid ''USER_NOT_FOUND'' L)
              | Inr (Some user) \<Rightarrow>
                  (case issueTokenPair e now (user_id user) (role user) (pDeviceId payload)
                          (pFamilyId payload) nextTokenId of
                     Inl err \<Rightarrow> (Inl err, L)
                   | Inr tokenPair \<Rightarrow>
                      (let nextHash = hashToken e (refreshToken tokenPair);
                           L1 = saveConsumed now nextHash i L
                       in (case create
                            (newSession (user_id user) (pDeviceId payload) (pFamilyId payload)
                               nextTokenId nextHash (Some tokenHash) (refreshExpiresAt tokenPair))
                            L1 of
                         Inl err \<Rightarrow> (Inl err, L1)
                       | Inr L2 \<Rightarrow>
                           (Inr \<lparr>resAccessToken = accessToken tokenPair,
                                 resRefreshToken = refreshToken tokenPair,
                                 resDeviceId = pDeviceId payload\<rparr>, L2)))))))))))"

section \<open>The refresh handler between its awaits\<close>

text \<open>
  A Node request handler runs without interruption up to its next \<^verbatim>\<open>await\<close>; other
  handlers run while it waits, and each awaited store operation is atomic. A
  \<open>refresh_task\<close> is a \<^verbatim>\<open>/refresh\<close> handler suspended at an \<^verbatim>\<open>await\<close>: the
  constructor names the store operation it waits for and holds the local constants the
  rest of the handler reads. \<open>currentSession\<close> is held as the position of the document
  \<^verbatim>\<open>findOne\<close> returned, and the ObjectId \<^verbatim>\<open>payload.sub\<close> is cast to is held beside
  the payload; \<^verbatim>\<open>save()\<close> sets the assigned fields of the document
  with that \<^verbatim>\<open>_id\<close>, whatever its state is by then (the schema does not enable
  \<^verbatim>\<open>optimisticConcurrency\<close>, and the update carries no condition on \<^verbatim>\<open>status\<close>).
\<close>

datatype refresh_task =
    AwaitFindOne RefreshPayload string
  | AwaitRevokeAll string string app_error
  | AwaitSaveExpired nat
  | AwaitFindById RefreshPayload string string nat
  | AwaitSaveConsumed RefreshPayload string nat UserDocument TokenPair
  | AwaitCreate SessionDocument AuthResponse
  | Done "app_error + AuthResponse"

text \<open>Lines 125-131: the handler up to its first \<^verbatim>\<open>await\<close>.\<close>

definition refreshStart :: "env \<Rightarrow> nat \<Rightarrow> string \<Rightarrow> refresh_task" where
  "refreshStart e now presented =
     (if presented = [] then Done (Inl (ValidationError ''refreshToken is required''))
      else (case verifyRefreshToken e now presented of
        Inl err \<Rightarrow> Done (Inl err)
      | Inr payload \<Rightarrow> AwaitFindOne payload (hashToken e presented)))"

text \<open>
  The awaited operation is applied to the collection as it is now, and the handler runs
  on to its next \<^verbatim>\<open>await\<close>, or to its response or error.
\<close>

fun refreshStep ::
  "env \<Rightarrow> UserDocument list \<Rightarrow> nat \<Rightarrow> string \<Rightarrow> refresh_task \<Rightarrow> ledger \<Rightarrow>
   refresh_task \<times> ledger" where
  "refreshStep e users now nextTokenId (AwaitFindOne payload tokenHash) L =
     (case castObjectId e (sub payload) of
        None \<Rightarrow> (Done (Inl (CastError ''userId'')), L)
      | Some uid \<Rightarrow>
     (case findOne (refreshFilter e tokenHash payload) L of
        None \<Rightarrow>
          (AwaitRevokeAll uid ''REFRESH_TOKEN_REUSE_OR_UNKNOWN''
             (AuthError ''Refresh token is invalid''), L)
      | Some i \<Rightarrow>
          (if status (L ! i) \<noteq> active
           then (AwaitRevokeAll uid ''REFRESH_TOKEN_REUSE_DETECTED''
                   (AuthError ''Refresh token reuse detected. All sessions revoked.''), L)
           else if expiresAt (L ! i) \<le> now then (AwaitSaveExpired i, L)
           else (AwaitFindById payload tokenHash uid i, L))))"
| "refreshStep e users now nextTokenId (AwaitRevokeAll uid reason err) L =
     (Done (Inl err), revokeAllUserSessions now uid reason L)"
| "refreshStep e users now nextTokenId (AwaitSaveExpired i) L =
     (Done (Inl (AuthError ''Refresh token is expired'')), saveExpired now i L)"
| "refreshStep e users now nextTokenId (AwaitFindById payload tokenHash uid i) L =
     (case findById e users (sub payload) of
        Inl err \<Rightarrow> (Done (Inl err), L)
      | Inr None \<Rightarrow>
          (AwaitRevokeAll uid ''USER_NOT_FOUND''
             (AuthError ''User account not found''), L)
      | Inr (Some user) \<Rightarrow>
          (case issueTokenPair e now (user_id user) (role user) (pDeviceId payload)
                  (pFamilyId payload) nextTokenId of
             Inl err \<Rightarrow> (Done (Inl err), L)
           | Inr tokenPair \<Rightarrow> (AwaitSaveConsumed payload tokenHash i user tokenPair, L)))"
| "refreshStep e users now nextTokenId (AwaitSaveConsumed payload tokenHash i user tokenPair) L =
     (AwaitCreate
        (newSession (user_id user) (pDeviceId payload) (pFamilyId payload) nextTokenId
           (hashToken e (refreshToken tokenPair)) (Some tokenHash) (refreshExpiresAt tokenPair))
        \<lparr>resAccessToken = accessToken tokenPair,
         resRefreshToken = refreshToken tokenPair,
         resDeviceId = pDeviceId payload\<rparr>,
      saveConsumed now (hashToken e (refreshToken tokenPair)) i L)"
| "refreshStep e users now nextTokenId (AwaitCreate doc resp) L =
     (case create doc L of
        Inl err \<Rightarrow> (Done (Inl err), L)
      | Inr L2 \<Rightarrow> (Done (Inr resp), L2))"
| "refreshStep e users now nextTokenId (Done r) L = (Done r, L)"

text \<open>One handler run alone: no other handler touches the collection between its steps.\<close>

definition refreshAlone ::
  "env \<Rightarrow> UserDocument list \<Rightarrow> nat \<Rightarrow> string \<Rightarrow> string \<Rightarrow> ledger \<Rightarrow> refresh_task \<times> ledger" where
  "refreshAlone e users now nextTokenId presented L =
     (let step = (\<lambda>(t, L'). refreshStep e users now nextTokenId t L')
      in step (step (step (step (refreshStart e now presented, L)))))"

text \<open>
  Two handlers in flight. A schedule says whose awaited operation the store performs
  next; the two requests have their own clock readings and generated token ids.
\<close>

datatype turn = First | Second

fun runSchedule ::
  "env \<Rightarrow> UserDocument list \<Rightarrow> nat \<times> string \<Rightarrow> nat \<times> string \<Rightarrow> turn list \<Rightarrow>
   (refresh_task \<times> refresh_task) \<times> ledger \<Rightarrow> (refresh_task \<times> refresh_task) \<times> ledger" where
  "runSchedule e users a b [] st = st"
| "runSchedule e users a b (First # sched) ((ta, tb), L) =
     (case refreshStep e users (fst a) (snd a) ta L of
        (ta', L') \<Rightarrow> runSchedule e users a b sched ((ta', tb), L'))"
| "runSchedule e users a b (Second # sched) ((ta, tb), L) =
     (case refreshStep e users (fst b) (snd b) tb L of
        (tb', L') \<Rightarrow> runSchedule e users a b sched ((ta, tb'), L'))"

section \<open>Failure kinds and link states\<close>

text \<open>
  The handler throws \<^verbatim>\<open>AuthError\<close> for every authentication failure; the messages tell
  the failures apart. Verification failures (\<^verbatim>\<open>verifyRefreshToken\<close>, tokens.ts lines
  83 and 90) are the invalid-credential kind, the unknown-credential and reuse branches
  (auth.ts lines 142 and 147) the rejected kind, the expiry branch (line 155) the
  expired kind, and \<^verbatim>\<open>readSecret\<close>'s error the configuration kind.
\<close>

definition isInvalidCredential :: "app_error \<Rightarrow> bool" where
  "isInvalidCredential err \<longleftrightarrow>
     err = AuthError ''Invalid or expired refresh token'' \<or> err = AuthError ''Invalid token type''"

definition isCredentialRejected :: "app_error \<Rightarrow> bool" where
  "isCredentialRejected err \<longleftrightarrow>
     err = AuthError ''Refresh token is invalid'' \<or>
     err = AuthError ''Refresh token reuse detected. All sessions revoked.''"

definition isCredentialExpired :: "app_error \<Rightarrow> bool" where
  "isCredentialExpired err \<longleftrightarrow> err = AuthError ''Refresh token is expired''"

definition isConfigError :: "app_error \<Rightarrow> bool" where
  "isConfigError err \<longleftrightarrow>
     (case err of AppError msg statusCode code \<Rightarrow> code = ''AUTH_CONFIG_ERROR'' | _ \<Rightarrow> False)"

text \<open>
  The order the handlers move a document's \<^verbatim>\<open>status\<close> along: \<open>active\<close> may become
  anything, \<open>consumed\<close> may stay or become \<open>revoked\<close>, \<open>revoked\<close> stays.
\<close>

fun forward :: "SessionStatus \<Rightarrow> SessionStatus \<Rightarrow> bool" where
  "forward active s' = True"
| "forward consumed s' = (s' = consumed \<or> s' = revoked)"
| "forward revoked s' = (s' = revoked)"

section \<open>A small deployment for concrete runs\<close>

text \<open>
  Stand-ins for the libraries, used only to run the handlers on concrete requests: a
  refresh token is \<open>R.\<close> followed by its token id and verifies until the clock reaches
  \<open>600000\<close>, a digest is \<open>#\<close> followed by the token, a password hash is \<open>$\<close>
  followed by the password, and the ObjectIds are \<open>u1\<close> and \<open>u9\<close>. The credential
  \<open>R.x1\<close> is signed for the subject \<open>nobody\<close>, which is not an ObjectId.
\<close>

definition demoSign :: "jwt_payload \<Rightarrow> string \<Rightarrow> nat \<Rightarrow> nat \<Rightarrow> string" where
  "demoSign payload secret ttl now =
     (case payload of
        AccessPayload uid rl \<Rightarrow> ''A.'' @ uid
      | RefreshTokenPayload p \<Rightarrow> ''R.'' @ pTokenId p
      | OtherPayload \<Rightarrow> ''O'')"

definition demoVerify :: "string \<Rightarrow> string \<Rightarrow> nat \<Rightarrow> jwt_payload option" where
  "demoVerify token secret now =
     (if 600000 \<le> now then None
      else if token = ''R.t1''
      then Some (RefreshTokenPayload
                   \<lparr>sub = ''u1'', pDeviceId = ''d1'', pFamilyId = ''f1'', pTokenId = ''t1''\<rparr>)
      else if token = ''R.t7''
      then Some (RefreshTokenPayload
                   \<lparr>sub = ''u1'', pDeviceId = ''d1'', pFamilyId = ''f7'', pTokenId = ''t7''\<rparr>)
      else if token = ''R.g1''
      then Some (RefreshTokenPayload
                   \<lparr>sub = ''u9'', pDeviceId = ''d9'', pFamilyId = ''f9'', pTokenId = ''g1''\<rparr>)
      else if token = ''R.x1''
      then Some (RefreshTokenPayload
                   \<lparr>sub = ''nobody'', pDeviceId = ''d1'', pFamilyId = ''f1'', pTokenId = ''x1''\<rparr>)
      else None)"

definition demoCast :: "string \<Rightarrow> string option" where
  "demoCast idString =
     (if idString = ''u1'' \<or> idString = ''u9'' then Some idString else None)"

definition demoEnv :: env where
  "demoEnv =
     \<lparr>JWT_ACCESS_SECRET = Some ''access-secret-access-secret-32-ch'',
      JWT_REFRESH_SECRET = Some ''refresh-secret-refresh-secret-32'',
      jwtSign = demoSign, jwtVerify = demoVerify,
      sha256hex = (\<lambda>t. ''#'' @ t),
      bcryptCompare = (\<lambda>pw h. h = ''$'' @ pw),
      castObjectId = demoCast\<rparr>"

definition demoUsers :: "UserDocument list" where
  "demoUsers = [\<lparr>user_id = ''u1'', email = ''ada@example.org'', passwordHash = ''$pw'', role = USER\<rparr>]"

text \<open>
  User \<open>u1\<close> with an active session on device \<open>d1\<close> (credential \<open>R.t1\<close>) and one on
  device \<open>d2\<close>; user \<open>u9\<close>, who has no user record, with an active session
  (credential \<open>R.g1\<close>).
\<close>

definition demoLedger :: ledger where
  "demoLedger =
     [newSession ''u1'' ''d1'' ''f1'' ''t1'' ''#R.t1'' None 700000,
      newSession ''u1'' ''d2'' ''f2'' ''t5'' ''#R.t5'' None 700000,
      newSession ''u9'' ''d9'' ''f9'' ''g1'' ''#R.g1'' None 700000]"

text \<open>The same, with the first session's \<^verbatim>\<open>expiresAt\<close> at \<open>1000\<close>.\<close>

definition shortLedger :: ledger where
  "shortLedger =
     [newSession ''u1'' ''d1'' ''f1'' ''t1'' ''#R.t1'' None 1000,
      newSession ''u1'' ''d2'' ''f2'' ''t5'' ''#R.t5'' None 700000]"

text \<open>The collection after the credential \<open>R.t1\<close> has been rotated at clock \<open>1000\<close>.\<close>

definition rotatedLedger :: ledger where
  "rotatedLedger =
     [(newSession ''u1'' ''d1'' ''f1'' ''t1'' ''#R.t1'' None 700000)
        \<lparr>status := consumed, consumedAt := Some 1000, replacedByHash := Some ''#R.t2''\<rparr>,
      newSession ''u1'' ''d2'' ''f2'' ''t5'' ''#R.t5'' None 700000,
      newSession ''u9'' ''d9'' ''f9'' ''g1'' ''#R.g1'' None 700000,
      newSession ''u1'' ''d1'' ''f1'' ''t2'' ''#R.t2'' (Some ''#R.t1'') 604801000]"

text \<open>The collection after user \<open>u1\<close> has logged in again from device \<open>d1\<close> at clock \<open>1000\<close>.\<close>

definition reloginLedger :: ledger where
  "reloginLedger =
     [(newSession ''u1'' ''d1'' ''f1'' ''t1'' ''#R.t1'' None 700000)
        \<lparr>status := revoked, revokedAt := Some 1000, revokedReason := Some ''DEVICE_RELOGIN''\<rparr>,
      newSession ''u1'' ''d2'' ''f2'' ''t5'' ''#R.t5'' None 700000,
      newSession ''u9'' ''d9'' ''f9'' ''g1'' ''#R.g1'' None 700000,
      newSession ''u1'' ''d1'' ''gf'' ''gt'' ''#R.gt'' None 604801000]"

text \<open>
  The collection after two \<^verbatim>\<open>/refresh\<close> handlers have both rotated the credential
  \<open>R.t1\<close>: the second \<^verbatim>\<open>save()\<close> has overwritten the first one's
  \<^verbatim>\<open>consumedAt\<close> and \<^verbatim>\<open>replacedByHash\<close>, and family \<open>f1\<close> has two active documents.
\<close>

definition forkedLedger :: ledger where
  "forkedLedger =
     [(newSession ''u1'' ''d1'' ''f1'' ''t1'' ''#R.t1'' None 700000)
        \<lparr>status := consumed, consumedAt := Some 1001, replacedByHash := Some ''#R.t3''\<rparr>,
      newSession ''u1'' ''d2'' ''f2'' ''t5'' ''#R.t5'' None 700000,
      newSession ''u9'' ''d9'' ''f9'' ''g1'' ''#R.g1'' None 700000,
      newSession ''u1'' ''d1'' ''f1'' ''t2'' ''#R.t2'' (Some ''#R.t1'') 604801000,
      newSession ''u1'' ''d1'' ''f1'' ''t3'' ''#R.t3'' (Some ''#R.t1'') 604801001]"

text \<open>
  The collection after \<^verbatim>\<open>revokeAllUserSessions\<close> has run for \<open>u1\<close> at clock \<open>1001\<close>,
  and the same after a \<^verbatim>\<open>/refresh\<close> handler that had read the first document before
  has saved it and created its successor.
\<close>

definition revokedLedger :: ledger where
  "revokedLedger =
     [(newSession ''u1'' ''d1'' ''f1'' ''t1'' ''#R.t1'' None 700000)
        \<lparr>status := revoked, revokedAt := Some 1001,
         revokedReason := Some ''REFRESH_TOKEN_REUSE_OR_UNKNOWN''\<rparr>,
      (newSession ''u1'' ''d2'' ''f2'' ''t5'' ''#R.t5'' None 700000)
        \<lparr>status := revoked, revokedAt := Some 1001,
         revokedReason := Some ''REFRESH_TOKEN_REUSE_OR_UNKNOWN''\<rparr>,
      newSession ''u9'' ''d9'' ''f9'' ''g1'' ''#R.g1'' None 700000]"

definition resavedLedger :: ledger where
  "resavedLedger =
     [(newSession ''u1'' ''d1'' ''f1'' ''t1'' ''#R.t1'' None 700000)
        \<lparr>status := consumed, revokedAt := Some 1001,
         revokedReason := Some ''REFRESH_TOKEN_REUSE_OR_UNKNOWN'',
         consumedAt := Some 1000, replacedByHash := Some ''#R.t2''\<rparr>,
      (newSession ''u1'' ''d2'' ''f2'' ''t5'' ''#R.t5'' None 700000)
        \<lparr>status := revoked, revokedAt := Some 1001,
         revokedReason := Some ''REFRESH_TOKEN_REUSE_OR_UNKNOWN''\<rparr>,
      newSession ''u9'' ''d9'' ''f9'' ''g1'' ''#R.g1'' None 700000,
      newSession ''u1'' ''d1'' ''f1'' ''t2'' ''#R.t2'' (Some ''#R.t1'') 604801000]"

section \<open>Lookup and insertion\<close>

lemma findOne_Some:
  "findOne P L = Some i \<Longrightarrow> i < length L \<and> P (L ! i) \<and> (\<forall>j<i. \<not> P (L ! j))"
proof (induction L arbitrary: i)
  case Nil
  then show ?case by simp
next
  case (Cons s L)
  show ?case
  proof (cases "P s")
    case True
    with Cons.prems show ?thesis by simp
  next
    case False
    with Cons.prems obtain k where k: "findOne P L = Some k" and i: "i = Suc k"
      by auto
    from Cons.IH [OF k] have IH: "k < length L" "P (L ! k)" "\<forall>j<k. \<not> P (L ! j)"
      by simp_all
    have "\<not> P ((s # L) ! j)" if "j < Suc k" for j
    proof (cases j)
      case 0
      with False show ?thesis by simp
    next
      case (Suc j')
      with that IH(3) show ?thesis by simp
    qed
    with IH(1,2) i show ?thesis by simp
  qed
qed

lemma findOne_None: "findOne P L = None \<longleftrightarrow> (\<forall>s\<in>set L. \<not> P s)"
  by (induction L) simp_all

lemma findOne_first:
  "i < length L \<Longrightarrow> P (L ! i) \<Longrightarrow> \<forall>j<i. \<not> P (L ! j) \<Longrightarrow> findOne P L = Some i"
proof (induction L arbitrary: i)
  case Nil
  then show ?case by simp
next
  case (Cons s L)
  show ?case
  proof (cases i)
    case 0
    with Cons.prems show ?thesis by simp
  next
    case (Suc k)
    with Cons.prems have "\<not> P s" by auto
    moreover from Suc Cons.prems have "findOne P L = Some k"
      by (intro Cons.IH) auto
    ultimately show ?thesis using Suc by simp
  qed
qed

lemma create_Inr:
  "create doc L = Inr L' \<Longrightarrow>
     L' = L @ [doc] \<and> (\<forall>s\<in>set L. refreshTokenHash s \<noteq> refreshTokenHash doc)"
  by (simp add: create_def list_ex_iff split: if_splits)

lemma find_Some_holds: "find P xs = Some x \<Longrightarrow> P x"
  by (induction xs) (simp_all split: if_splits)

lemma findById_Some:
  assumes "findById e users idString = Inr (Some user)"
  shows "castObjectId e idString = Some (user_id user)"
proof (cases "castObjectId e idString")
  case None
  with assms show ?thesis by (simp add: findById_def)
next
  case (Some uid)
  with assms have "find (\<lambda>u. user_id u = uid) users = Some user"
    by (simp add: findById_def)
  then have "user_id user = uid" by (rule find_Some_holds)
  with Some show ?thesis by simp
qed

lemma found_cast:
  "findOne (refreshFilter e h p) L = Some i \<Longrightarrow> castObjectId e (sub p) = Some (userId (L ! i))"
  using findOne_Some [of "refreshFilter e h p" L i] by (simp add: refreshFilter_def)

section \<open>Updates of the collection\<close>

lemma revokeAll_length: "length (revokeAllUserSessions now uid reason L) = length L"
  by (simp add: revokeAllUserSessions_def updateMany_def)

lemma revokeAll_nth:
  "i < length L \<Longrightarrow>
   revokeAllUserSessions now uid reason L ! i =
     (if userId (L ! i) = uid \<and> status (L ! i) \<noteq> revoked
      then (L ! i)\<lparr>status := revoked, revokedAt := Some now, revokedReason := Some reason\<rparr>
      else L ! i)"
  by (simp add: revokeAllUserSessions_def updateMany_def)

lemma revokeAll_revoked:
  assumes "s \<in> set (revokeAllUserSessions now uid reason L)" and "userId s = uid"
  shows "status s = revoked"
proof -
  from assms(1) obtain i where i: "i < length L"
    and s: "s = revokeAllUserSessions now uid reason L ! i"
    by (metis in_set_conv_nth revokeAll_length)
  show ?thesis
  proof (cases "userId (L ! i) = uid \<and> status (L ! i) \<noteq> revoked")
    case True
    with i s show ?thesis by (simp add: revokeAll_nth)
  next
    case False
    with i s assms(2) show ?thesis by (simp add: revokeAll_nth)
  qed
qed

lemma revokeDevice_length: "length (revokeDeviceSessions now uid dev L) = length L"
  by (simp add: revokeDeviceSessions_def updateMany_def)

lemma revokeDevice_nth:
  "i < length L \<Longrightarrow>
   revokeDeviceSessions now uid dev L ! i =
     (if userId (L ! i) = uid \<and> deviceId (L ! i) = dev \<and> status (L ! i) = active
      then (L ! i)\<lparr>status := revoked, revokedAt := Some now,
                    revokedReason := Some ''DEVICE_RELOGIN''\<rparr>
      else L ! i)"
  by (simp add: revokeDeviceSessions_def updateMany_def)

lemma revokeDevice_none_active:
  "filter (\<lambda>s. userId s = uid \<and> deviceId s = dev \<and> status s = active)
     (revokeDeviceSessions now uid dev L) = []"
  by (induction L) (simp_all add: revokeDeviceSessions_def updateMany_def)

lemma revokeDevice_familyId:
  "filter (\<lambda>s. familyId s = fam) (revokeDeviceSessions now uid dev L) = [] \<longleftrightarrow>
   filter (\<lambda>s. familyId s = fam) L = []"
  by (induction L) (simp_all add: revokeDeviceSessions_def updateMany_def)

lemma saveExpired_length: "length (saveExpired now i L) = length L"
  by (simp add: saveExpired_def)

lemma saveExpired_nth_same:
  "i < length L \<Longrightarrow>
   saveExpired now i L ! i =
     (L ! i)\<lparr>status := revoked, revokedAt := Some now,
              revokedReason := Some ''REFRESH_TOKEN_EXPIRED''\<rparr>"
  by (simp add: saveExpired_def)

lemma saveExpired_nth_other: "j \<noteq> i \<Longrightarrow> saveExpired now i L ! j = L ! j"
  by (simp add: saveExpired_def)

lemma saveConsumed_length: "length (saveConsumed now h i L) = length L"
  by (simp add: saveConsumed_def)

lemma saveConsumed_nth_same:
  "i < length L \<Longrightarrow>
   saveConsumed now h i L ! i =
     (L ! i)\<lparr>status := consumed, consumedAt := Some now, replacedByHash := Some h\<rparr>"
  by (simp add: saveConsumed_def)

lemma saveConsumed_nth_other: "j \<noteq> i \<Longrightarrow> saveConsumed now h i L ! j = L ! j"
  by (simp add: saveConsumed_def)

lemma refreshFilter_consumed:
  "refreshFilter e h p (s\<lparr>status := st, consumedAt := c, replacedByHash := r\<rparr>) = refreshFilter e h p s"
  by (simp add: refreshFilter_def)

lemma findOne_after_rotation:
  assumes "findOne (refreshFilter e h p) L = Some i"
  shows "findOne (refreshFilter e h p) (saveConsumed now h' i L @ [doc]) = Some i"
proof (rule findOne_first)
  from assms have i: "i < length L" and P: "refreshFilter e h p (L ! i)"
    and before: "\<forall>j<i. \<not> refreshFilter e h p (L ! j)"
    by (simp_all add: findOne_Some)
  from i show "i < length (saveConsumed now h' i L @ [doc])"
    by (simp add: saveConsumed_length)
  from i P show "refreshFilter e h p ((saveConsumed now h' i L @ [doc]) ! i)"
    by (simp add: nth_append saveConsumed_length saveConsumed_nth_same refreshFilter_consumed)
  show "\<forall>j<i. \<not> refreshFilter e h p ((saveConsumed now h' i L @ [doc]) ! j)"
  proof (intro allI impI)
    fix j assume "j < i"
    with i before show "\<not> refreshFilter e h p ((saveConsumed now h' i L @ [doc]) ! j)"
      by (simp add: nth_append saveConsumed_length saveConsumed_nth_other)
  qed
qed

section \<open>What the credential signer returns\<close>

lemma verifyRefreshToken_Inl:
  "verifyRefreshToken e now token = Inl err \<Longrightarrow> isInvalidCredential err"
  by (auto simp: verifyRefreshToken_def isInvalidCredential_def
      split: sum.splits option.splits jwt_payload.splits)

lemma verifyRefreshToken_Inr:
  assumes "verifyRefreshToken e now token = Inr payload"
  shows "\<exists>secret. jwtVerify e token secret now = Some (RefreshTokenPayload payload)"
proof (cases "readSecret ''JWT_REFRESH_SECRET'' (JWT_REFRESH_SECRET e)")
  case (Inl err)
  with assms show ?thesis by (simp add: verifyRefreshToken_def)
next
  case (Inr secret)
  with assms have "jwtVerify e token secret now = Some (RefreshTokenPayload payload)"
    by (simp add: verifyRefreshToken_def split: option.splits jwt_payload.splits)
  then show ?thesis ..
qed

lemma issueTokenPair_expiry:
  "issueTokenPair e now uid rl dev fam tid = Inr tokenPair \<Longrightarrow>
   refreshExpiresAt tokenPair = now + 604800000"
  by (auto simp: issueTokenPair_def split: sum.splits)

lemma issueTokenPair_refreshToken:
  assumes "issueTokenPair e now uid rl dev fam tid = Inr tokenPair"
  shows "\<exists>secret. JWT_REFRESH_SECRET e = Some secret \<and>
           refreshToken tokenPair =
             jwtSign e (RefreshTokenPayload
                          \<lparr>sub = uid, pDeviceId = dev, pFamilyId = fam, pTokenId = tid\<rparr>)
               secret REFRESH_TOKEN_TTL now"
  using assms
  by (auto simp: issueTokenPair_def readSecret_def split: sum.splits option.splits if_splits)

section \<open>The paths through the handlers\<close>

text \<open>
  One lemma per way out of \<^verbatim>\<open>/refresh\<close>, in the order of the source, and the
  converse for a successful response; the same for \<^verbatim>\<open>/login\<close>.
\<close>

lemma refresh_unverified:
  "presented \<noteq> [] \<Longrightarrow> verifyRefreshToken e now presented = Inl err \<Longrightarrow>
   refresh e users now nid presented L = (Inl err, L)"
  by (simp add: refresh_def)

lemma refresh_uncastable:
  "presented \<noteq> [] \<Longrightarrow> verifyRefreshToken e now presented = Inr payload \<Longrightarrow>
   castObjectId e (sub payload) = None \<Longrightarrow>
   refresh e users now nid presented L = (Inl (CastError ''userId''), L)"
  by (simp add: refresh_def)

lemma refresh_unknown:
  "presented \<noteq> [] \<Longrightarrow> verifyRefreshToken e now presented = Inr payload \<Longrightarrow>
   castObjectId e (sub payload) = Some uid \<Longrightarrow>
   findOne (refreshFilter e (hashToken e presented) payload) L = None \<Longrightarrow>
   refresh e users now nid presented L =
     (Inl (AuthError ''Refresh token is invalid''),
      revokeAllUserSessions now uid ''REFRESH_TOKEN_REUSE_OR_UNKNOWN'' L)"
  by (simp add: refresh_def)

lemma refresh_reuse:
  "presented \<noteq> [] \<Longrightarrow> verifyRefreshToken e now presented = Inr payload \<Longrightarrow>
   castObjectId e (sub payload) = Some uid \<Longrightarrow>
   findOne (refreshFilter e (hashToken e presented) payload) L = Some i \<Longrightarrow>
   status (L ! i) \<noteq> active \<Longrightarrow>
   refresh e users now nid presented L =
     (Inl (AuthError ''Refresh token reuse detected. All sessions revoked.''),
      revokeAllUserSessions now uid ''REFRESH_TOKEN_REUSE_DETECTED'' L)"
  by (simp add: refresh_def)

lemma refresh_expired:
  "presented \<noteq> [] \<Longrightarrow> verifyRefreshToken e now presented = Inr payload \<Longrightarrow>
   castObjectId e (sub payload) = Some uid \<Longrightarrow>
   findOne (refreshFilter e (hashToken e presented) payload) L = Some i \<Longrightarrow>
   status (L ! i) = active \<Longrightarrow> expiresAt (L ! i) \<le> now \<Longrightarrow>
   refresh e users now nid presented L =
     (Inl (AuthError ''Refresh token is expired''), saveExpired now i L)"
  by (simp add: refresh_def)

lemma refresh_no_user:
  "presented \<noteq> [] \<Longrightarrow> verifyRefreshToken e now presented = Inr payload \<Longrightarrow>
   castObjectId e (sub payload) = Some uid \<Longrightarrow>
   findOne (refreshFilter e (hashToken e presented) payload) L = Some i \<Longrightarrow>
   status (L ! i) = active \<Longrightarrow> now < expiresAt (L ! i) \<Longrightarrow>
   findById e users (sub payload) = Inr None \<Longrightarrow>
   refresh e users now nid presented L =
     (Inl (AuthError ''User account not found''),
      revokeAllUserSessions now uid ''USER_NOT_FOUND'' L)"
  by (simp add: refresh_def)

lemma refresh_rotates:
  "presented \<noteq> [] \<Longrightarrow> verifyRefreshToken e now presented = Inr payload \<Longrightarrow>
   castObjectId e (sub payload) = Some uid \<Longrightarrow>
   findOne (refreshFilter e (hashToken e presented) payload) L = Some i \<Longrightarrow>
   status (L ! i) = active \<Longrightarrow> now < expiresAt (L ! i) \<Longrightarrow>
   findById e users (sub payload) = Inr (Some user) \<Longrightarrow>
   issueTokenPair e now (user_id user) (role user) (pDeviceId payload) (pFamilyId payload) nid
     = Inr tokenPair \<Longrightarrow>
   create (newSession (user_id user) (pDeviceId payload) (pFamilyId payload) nid
             (hashToken e (refreshToken tokenPair)) (Some (hashToken e presented))
             (refreshExpiresAt tokenPair))
          (saveConsumed now (hashToken e (refreshToken tokenPair)) i L) = Inr L2 \<Longrightarrow>
   refresh e users now nid presented L =
     (Inr \<lparr>resAccessToken = accessToken tokenPair, resRefreshToken = refreshToken tokenPair,
           resDeviceId = pDeviceId payload\<rparr>, L2)"
  by (simp add: refresh_def Let_def)

lemma refresh_success:
  assumes "refresh e users now nid presented L = (Inr resp, L')"
  shows "\<exists>payload i user tokenPair.
           presented \<noteq> [] \<and> verifyRefreshToken e now presented = Inr payload \<and>
           findOne (refreshFilter e (hashToken e presented) payload) L = Some i \<and>
           status (L ! i) = active \<and> now < expiresAt (L ! i) \<and>
           findById e users (sub payload) = Inr (Some user) \<and>
           issueTokenPair e now (user_id user) (role user) (pDeviceId payload)
             (pFamilyId payload) nid = Inr tokenPair \<and>
           create (newSession (user_id user) (pDeviceId payload) (pFamilyId payload) nid
                     (hashToken e (refreshToken tokenPair)) (Some (hashToken e presented))
                     (refreshExpiresAt tokenPair))
                  (saveConsumed now (hashToken e (refreshToken tokenPair)) i L) = Inr L' \<and>
           resp = \<lparr>resAccessToken = accessToken tokenPair,
                   resRefreshToken = refreshToken tokenPair,
                   resDeviceId = pDeviceId payload\<rparr>"
  using assms
  by (simp add: refresh_def Let_def split: if_splits sum.splits option.splits)

lemma login_proceeds:
  "em \<noteq> [] \<Longrightarrow> password \<noteq> [] \<Longrightarrow> findUserByEmail users em = Some user \<Longrightarrow>
   bcryptCompare e password (passwordHash user) \<Longrightarrow>
   dev = (if providedDeviceId \<noteq> [] then providedDeviceId else genDeviceId) \<Longrightarrow>
   issueTokenPair e now (user_id user) (role user) dev genFamilyId genTokenId = Inr tokenPair \<Longrightarrow>
   create (newSession (user_id user) dev genFamilyId genTokenId
             (hashToken e (refreshToken tokenPair)) None (refreshExpiresAt tokenPair))
          (revokeDeviceSessions now (user_id user) dev L) = Inr L2 \<Longrightarrow>
   login e users now genDeviceId genFamilyId genTokenId em password providedDeviceId L =
     (Inr \<lparr>resAccessToken = accessToken tokenPair, resRefreshToken = refreshToken tokenPair,
           resDeviceId = dev\<rparr>, L2)"
  by (simp add: login_def Let_def)

lemma login_success:
  assumes "login e users now genDeviceId genFamilyId genTokenId em password providedDeviceId L
             = (Inr resp, L')"
  shows "\<exists>user tokenPair.
           findUserByEmail users em = Some user \<and>
           issueTokenPair e now (user_id user) (role user)
             (if providedDeviceId \<noteq> [] then providedDeviceId else genDeviceId)
             genFamilyId genTokenId = Inr tokenPair \<and>
           create (newSession (user_id user)
                     (if providedDeviceId \<noteq> [] then providedDeviceId else genDeviceId)
                     genFamilyId genTokenId (hashToken e (refreshToken tokenPair)) None
                     (refreshExpiresAt tokenPair))
                  (revokeDeviceSessions now (user_id user)
                     (if providedDeviceId \<noteq> [] then providedDeviceId else genDeviceId) L)
             = Inr L' \<and>
           resp = \<lparr>resAccessToken = accessToken tokenPair,
                   resRefreshToken = refreshToken tokenPair,
                   resDeviceId = (if providedDeviceId \<noteq> [] then providedDeviceId
                                  else genDeviceId)\<rparr>"
  using assms
  by (simp add: login_def Let_def split: if_splits sum.splits option.splits)

text \<open>
  The document a successful \<^verbatim>\<open>/login\<close> or \<^verbatim>\<open>/refresh\<close> creates stores the hash of
  the refresh token of the response, and that token was signed over the document's own
  user, device, family and token ids.
\<close>

lemma login_records_credential:
  assumes "login e users now genDeviceId genFamilyId genTokenId em password providedDeviceId L
             = (Inr resp, L')"
  shows "\<exists>secret. JWT_REFRESH_SECRET e = Some secret \<and>
           refreshTokenHash (last L') = hashToken e (resRefreshToken resp) \<and>
           resRefreshToken resp =
             jwtSign e (RefreshTokenPayload
                          \<lparr>sub = userId (last L'), pDeviceId = deviceId (last L'),
                           pFamilyId = familyId (last L'), pTokenId = tokenId (last L')\<rparr>)
               secret REFRESH_TOKEN_TTL now"
proof -
  from login_success [OF assms] obtain user :: UserDocument and tokenPair :: TokenPair
    and dev where
    iss: "issueTokenPair e now (user_id user) (role user) dev genFamilyId genTokenId
            = Inr tokenPair" and
    created: "create (newSession (user_id user) dev genFamilyId genTokenId
                (hashToken e (refreshToken tokenPair)) None (refreshExpiresAt tokenPair))
              (revokeDeviceSessions now (user_id user) dev L) = Inr L'" and
    resp: "resRefreshToken resp = refreshToken tokenPair"
    by (elim exE conjE) simp
  from create_Inr [OF created] have "last L' = newSession (user_id user) dev genFamilyId genTokenId
      (hashToken e (refreshToken tokenPair)) None (refreshExpiresAt tokenPair)"
    by simp
  with issueTokenPair_refreshToken [OF iss] resp show ?thesis
    by (simp add: newSession_def)
qed

lemma refresh_records_credential:
  assumes "refresh e users now nextTokenId presented L = (Inr resp, L')"
  shows "\<exists>secret. JWT_REFRESH_SECRET e = Some secret \<and>
           refreshTokenHash (last L') = hashToken e (resRefreshToken resp) \<and>
           resRefreshToken resp =
             jwtSign e (RefreshTokenPayload
                          \<lparr>sub = userId (last L'), pDeviceId = deviceId (last L'),
                           pFamilyId = familyId (last L'), pTokenId = tokenId (last L')\<rparr>)
               secret REFRESH_TOKEN_TTL now"
proof -
  from refresh_success [OF assms] obtain payload :: RefreshPayload and i
    and user :: UserDocument and tokenPair :: TokenPair where
    iss: "issueTokenPair e now (user_id user) (role user) (pDeviceId payload)
            (pFamilyId payload) nextTokenId = Inr tokenPair" and
    created: "create (newSession (user_id user) (pDeviceId payload) (pFamilyId payload)
                nextTokenId (hashToken e (refreshToken tokenPair))
                (Some (hashToken e presented)) (refreshExpiresAt tokenPair))
              (saveConsumed now (hashToken e (refreshToken tokenPair)) i L) = Inr L'" and
    resp: "resRefreshToken resp = refreshToken tokenPair"
    by (elim exE conjE) simp
  from create_Inr [OF created] have "last L' = newSession (user_id user) (pDeviceId payload)
      (pFamilyId payload) nextTokenId (hashToken e (refreshToken tokenPair))
      (Some (hashToken e presented)) (refreshExpiresAt tokenPair)"
    by simp
  with issueTokenPair_refreshToken [OF iss] resp show ?thesis
    by (simp add: newSession_def)
qed

text \<open>
  Where the digest has no collisions and verification returns what was signed, a
  presented credential that verifies and matches such a document carries the document's
  device id.
\<close>

lemma recorded_credential_device:
  assumes digest: "\<And>t t'. hashToken e t = hashToken e t' \<Longrightarrow> t = t'"
    and signed: "\<And>p secret ttl t0 secret' t p'.
                   jwtVerify e (jwtSign e p secret ttl t0) secret' t = Some p' \<Longrightarrow> p' = p"
    and recorded: "refreshTokenHash s =
                     hashToken e (jwtSign e (RefreshTokenPayload
                        \<lparr>sub = userId s, pDeviceId = deviceId s, pFamilyId = familyId s,
                         pTokenId = tokenId s\<rparr>) secret ttl t0)"
    and v: "verifyRefreshToken e now presented = Inr payload"
    and match: "refreshFilter e (hashToken e presented) payload s"
  shows "pDeviceId payload = deviceId s"
proof -
  define p where "p = \<lparr>sub = userId s, pDeviceId = deviceId s, pFamilyId = familyId s,
                        pTokenId = tokenId s\<rparr>"
  from match have "refreshTokenHash s = hashToken e presented"
    by (simp add: refreshFilter_def)
  with recorded have "hashToken e presented =
      hashToken e (jwtSign e (RefreshTokenPayload p) secret ttl t0)"
    by (simp add: p_def)
  then have presented: "presented = jwtSign e (RefreshTokenPayload p) secret ttl t0"
    by (rule digest)
  from verifyRefreshToken_Inr [OF v] obtain secret' where
    "jwtVerify e presented secret' now = Some (RefreshTokenPayload payload)" ..
  then have "jwtVerify e (jwtSign e (RefreshTokenPayload p) secret ttl t0) secret' now =
      Some (RefreshTokenPayload payload)"
    by (simp only: presented)
  then have "RefreshTokenPayload payload = RefreshTokenPayload p"
    by (rule signed)
  then have "payload = p" by (simp only: jwt_payload.inject)
  then show ?thesis by (simp add: p_def)
qed

section \<open>The order of states\<close>

lemma forward_same: "forward s s"
  by (cases s) simp_all

lemma forward_revoked: "forward s revoked"
  by (cases s) simp_all

lemma revokeAll_forward:
  "i < length L \<Longrightarrow> forward (status (L ! i)) (status (revokeAllUserSessions now uid reason L ! i))"
  by (simp add: revokeAll_nth forward_same forward_revoked)

lemma revokeDevice_forward:
  "i < length L \<Longrightarrow> forward (status (L ! i)) (status (revokeDeviceSessions now uid dev L ! i))"
  by (simp add: revokeDevice_nth forward_same forward_revoked)

lemma saveExpired_forward:
  "i < length L \<Longrightarrow> forward (status (L ! i)) (status (saveExpired now k L ! i))"
  by (cases "i = k") (simp_all add: saveExpired_nth_same saveExpired_nth_other
      forward_same forward_revoked)

lemma saveConsumed_forward:
  "i < length L \<Longrightarrow> status (L ! k) = active \<Longrightarrow>
   forward (status (L ! i)) (status (saveConsumed now h k L ! i))"
  by (cases "i = k") (simp_all add: saveConsumed_nth_same saveConsumed_nth_other forward_same)

lemma login_forward:
  assumes "i < length L"
  shows "i < length (snd (login e users now gd gf gt em pw pd L)) \<and>
         forward (status (L ! i)) (status (snd (login e users now gd gf gt em pw pd L) ! i))"
proof -
  have dev: "i < length (revokeDeviceSessions now uid dev L) \<and>
        forward (status (L ! i)) (status (revokeDeviceSessions now uid dev L ! i))" for uid dev
    using assms by (simp add: revokeDevice_length revokeDevice_forward)
  have app: "i < length (revokeDeviceSessions now uid dev L @ [doc]) \<and>
        forward (status (L ! i)) (status ((revokeDeviceSessions now uid dev L @ [doc]) ! i))"
    for uid dev doc
    using assms by (simp add: revokeDevice_length revokeDevice_forward nth_append)
  show ?thesis
    using assms dev app
    by (simp add: login_def Let_def create_def forward_same
        split: option.split sum.split)
qed

lemma refresh_forward:
  assumes "i < length L"
  shows "i < length (snd (refresh e users now nid presented L)) \<and>
         forward (status (L ! i)) (status (snd (refresh e users now nid presented L) ! i))"
proof -
  have cons: "i < length (saveConsumed now h k L) \<and>
        forward (status (L ! i)) (status (saveConsumed now h k L ! i))"
    if "status (L ! k) = active" for h k
    using assms that by (simp add: saveConsumed_length saveConsumed_forward)
  have app: "i < length (saveConsumed now h k L @ [doc]) \<and>
        forward (status (L ! i)) (status ((saveConsumed now h k L @ [doc]) ! i))"
    if "status (L ! k) = active" for h k doc
    using assms that by (simp add: saveConsumed_length saveConsumed_forward nth_append)
  show ?thesis
    using assms cons app
    by (simp add: refresh_def Let_def create_def forward_same revokeAll_length
        revokeAll_forward saveExpired_length saveExpired_forward
        split: option.split sum.split)
qed

text \<open>
  What each operation leaves alone: the per-device revocation, and with it
  \<^verbatim>\<open>/login\<close>, every document that is not active; \<^verbatim>\<open>revokeAllUserSessions\<close> and
  \<^verbatim>\<open>/refresh\<close> every revoked document.
\<close>

lemma revokeDevice_keeps:
  "i < length L \<Longrightarrow> status (L ! i) \<noteq> active \<Longrightarrow>
   revokeDeviceSessions now uid dev L ! i = L ! i"
  by (simp add: revokeDevice_nth)

lemma revokeDevice_status:
  "i < length L \<Longrightarrow>
   status (revokeDeviceSessions now uid dev L ! i) = status (L ! i) \<or>
   status (revokeDeviceSessions now uid dev L ! i) = revoked"
  by (simp add: revokeDevice_nth)

lemma revokeAll_keeps:
  "i < length L \<Longrightarrow> status (L ! i) = revoked \<Longrightarrow>
   revokeAllUserSessions now uid reason L ! i = L ! i"
  by (simp add: revokeAll_nth)

lemma revokeAll_status:
  "i < length L \<Longrightarrow>
   status (revokeAllUserSessions now uid reason L ! i) = status (L ! i) \<or>
   status (revokeAllUserSessions now uid reason L ! i) = revoked"
  by (simp add: revokeAll_nth)

lemma login_keeps:
  assumes "i < length L" and "status (L ! i) \<noteq> active"
  shows "snd (login e users now gd gf gt em pw pd L) ! i = L ! i"
proof -
  have dev: "revokeDeviceSessions now uid dev L ! i = L ! i" for uid dev
    using assms by (rule revokeDevice_keeps)
  have app: "(revokeDeviceSessions now uid dev L @ [doc]) ! i = L ! i" for uid dev doc
    using assms by (simp add: nth_append revokeDevice_length revokeDevice_keeps)
  show ?thesis
    using dev app
    by (simp add: login_def Let_def create_def split: option.split sum.split)
qed

lemma login_status:
  assumes "i < length L"
  shows "status (snd (login e users now gd gf gt em pw pd L) ! i) = status (L ! i) \<or>
         status (snd (login e users now gd gf gt em pw pd L) ! i) = revoked"
proof -
  have dev: "status (revokeDeviceSessions now uid dev L ! i) = status (L ! i) \<or>
        status (revokeDeviceSessions now uid dev L ! i) = revoked" for uid dev
    using assms by (rule revokeDevice_status)
  have app: "status ((revokeDeviceSessions now uid dev L @ [doc]) ! i) = status (L ! i) \<or>
        status ((revokeDeviceSessions now uid dev L @ [doc]) ! i) = revoked" for uid dev doc
    using assms revokeDevice_status [OF assms, of now uid dev]
    by (simp add: nth_append revokeDevice_length)
  show ?thesis
    using dev app
    by (simp add: login_def Let_def create_def split: option.split sum.split)
qed

lemma refresh_keeps_revoked:
  assumes "i < length L" and "status (L ! i) = revoked"
  shows "snd (refresh e users now nid presented L) ! i = L ! i"
proof -
  have other: "i \<noteq> k" if "status (L ! k) = active" for k
    using assms(2) that by auto
  have ra: "revokeAllUserSessions now uid reason L ! i = L ! i" for uid reason
    using assms by (rule revokeAll_keeps)
  have se: "saveExpired now k L ! i = L ! i" if "status (L ! k) = active" for k
    using other [OF that] by (simp add: saveExpired_nth_other)
  have sc: "saveConsumed now h k L ! i = L ! i" if "status (L ! k) = active" for h k
    using other [OF that] by (simp add: saveConsumed_nth_other)
  have app: "(saveConsumed now h k L @ [doc]) ! i = L ! i"
    if "status (L ! k) = active" for h k doc
    using assms(1) sc [OF that] by (simp add: nth_append saveConsumed_length)
  show ?thesis
    using ra se sc app
    by (simp add: refresh_def Let_def create_def split: option.split sum.split)
qed

section \<open>The suspended handler run alone\<close>

text \<open>
  Run alone, the suspended handler computes what \<open>refresh\<close> computes: the two
  descriptions of \<^verbatim>\<open>router.post('/refresh')\<close> agree.
\<close>

lemma refreshAlone_refresh:
  "refreshAlone e users now nid presented L =
     (Done (fst (refresh e users now nid presented L)), snd (refresh e users now nid presented L))"
  by (simp add: refreshAlone_def refreshStart_def refresh_def Let_def
      split: option.split sum.split)

section \<open>Runs of the small deployment\<close>

lemma demo_hash: "hashToken demoEnv t = ''#'' @ t"
  by (simp add: hashToken_def demoEnv_def)

lemma demo_cast:
  "castObjectId demoEnv s = (if s = ''u1'' \<or> s = ''u9'' then Some s else None)"
  by (simp add: demoEnv_def demoCast_def)

lemma demo_verify_t1:
  "now < 600000 \<Longrightarrow>
   verifyRefreshToken demoEnv now ''R.t1'' =
     Inr \<lparr>sub = ''u1'', pDeviceId = ''d1'', pFamilyId = ''f1'', pTokenId = ''t1''\<rparr>"
  by (simp add: verifyRefreshToken_def demoEnv_def demoVerify_def readSecret_def)

lemma demo_verify_t7:
  "now < 600000 \<Longrightarrow>
   verifyRefreshToken demoEnv now ''R.t7'' =
     Inr \<lparr>sub = ''u1'', pDeviceId = ''d1'', pFamilyId = ''f7'', pTokenId = ''t7''\<rparr>"
  by (simp add: verifyRefreshToken_def demoEnv_def demoVerify_def readSecret_def)

lemma demo_verify_g1:
  "now < 600000 \<Longrightarrow>
   verifyRefreshToken demoEnv now ''R.g1'' =
     Inr \<lparr>sub = ''u9'', pDeviceId = ''d9'', pFamilyId = ''f9'', pTokenId = ''g1''\<rparr>"
  by (simp add: verifyRefreshToken_def demoEnv_def demoVerify_def readSecret_def)

lemma demo_verify_garbage:
  "verifyRefreshToken demoEnv now ''garbage'' = Inl (AuthError ''Invalid or expired refresh token'')"
  by (simp add: verifyRefreshToken_def demoEnv_def demoVerify_def readSecret_def)

lemma demo_issue:
  "issueTokenPair demoEnv now uid rl dev fam tid =
     Inr \<lparr>accessToken = ''A.'' @ uid, refreshToken = ''R.'' @ tid,
          refreshExpiresAt = now + 604800000\<rparr>"
  by (simp add: issueTokenPair_def demoEnv_def demoSign_def readSecret_def)

lemma demo_findById: "findById demoEnv demoUsers ''u1'' = Inr (Some (demoUsers ! 0))"
  by (simp add: findById_def demoUsers_def demo_cast)

lemma demo_user: "user_id (demoUsers ! 0) = ''u1''" "role (demoUsers ! 0) = USER"
  "email (demoUsers ! 0) = ''ada@example.org''" "passwordHash (demoUsers ! 0) = ''$pw''"
  by (simp_all add: demoUsers_def)

lemma demo_find_user: "findUserByEmail demoUsers ''ada@example.org'' = Some (demoUsers ! 0)"
  by (simp add: findUserByEmail_def demoUsers_def)

lemma demo_find_t1:
  "findOne (refreshFilter demoEnv (hashToken demoEnv ''R.t1'')
      \<lparr>sub = ''u1'', pDeviceId = ''d1'', pFamilyId = ''f1'', pTokenId = ''t1''\<rparr>) demoLedger = Some 0"
  by (simp add: demoLedger_def refreshFilter_def newSession_def demo_hash demo_cast)

lemma demo_find_t1_rotated:
  "findOne (refreshFilter demoEnv (hashToken demoEnv ''R.t1'')
      \<lparr>sub = ''u1'', pDeviceId = ''d1'', pFamilyId = ''f1'', pTokenId = ''t1''\<rparr>) rotatedLedger = Some 0"
  by (simp add: rotatedLedger_def refreshFilter_def newSession_def demo_hash demo_cast)

lemma demo_rotation:
  "refresh demoEnv demoUsers 1000 ''t2'' ''R.t1'' demoLedger =
     (Inr \<lparr>resAccessToken = ''A.u1'', resRefreshToken = ''R.t2'', resDeviceId = ''d1''\<rparr>,
      rotatedLedger)"
proof -
  have h1: "''R.t1'' \<noteq> []" by simp
  have h2: "verifyRefreshToken demoEnv 1000 ''R.t1'' =
     Inr \<lparr>sub = ''u1'', pDeviceId = ''d1'', pFamilyId = ''f1'', pTokenId = ''t1''\<rparr>"
    by (simp add: demo_verify_t1)
  have h4: "status (demoLedger ! 0) = active" and h5: "1000 < expiresAt (demoLedger ! 0)"
    by (simp_all add: demoLedger_def newSession_def)
  have h3: "castObjectId demoEnv
      (sub \<lparr>sub = ''u1'', pDeviceId = ''d1'', pFamilyId = ''f1'', pTokenId = ''t1''\<rparr>)
      = Some ''u1''"
    by (simp add: demo_cast)
  have h6: "findById demoEnv demoUsers
      (sub \<lparr>sub = ''u1'', pDeviceId = ''d1'', pFamilyId = ''f1'', pTokenId = ''t1''\<rparr>)
      = Inr (Some (demoUsers ! 0))"
    by (simp add: demo_findById)
  have h8: "create (newSession ''u1'' ''d1'' ''f1'' ''t2'' ''#R.t2'' (Some ''#R.t1'') 604801000)
      (saveConsumed 1000 ''#R.t2'' 0 demoLedger) = Inr rotatedLedger"
    by (simp add: create_def saveConsumed_def demoLedger_def newSession_def rotatedLedger_def)
  from refresh_rotates [OF h1 h2 h3 demo_find_t1 h4 h5 h6, of "''t2''"
      "\<lparr>accessToken = ''A.u1'', refreshToken = ''R.t2'', refreshExpiresAt = 604801000\<rparr>"
      rotatedLedger] h8
  show ?thesis by (simp add: demo_issue demo_user demo_hash)
qed

lemma demo_login:
  "login demoEnv demoUsers 1000 ''gd'' ''gf'' ''gt'' ''ada@example.org'' ''pw'' ''d1'' demoLedger =
     (Inr \<lparr>resAccessToken = ''A.u1'', resRefreshToken = ''R.gt'', resDeviceId = ''d1''\<rparr>,
      reloginLedger)"
proof -
  have h1: "''ada@example.org'' \<noteq> []" and h2: "''pw'' \<noteq> []" by simp_all
  have h4: "bcryptCompare demoEnv ''pw'' (passwordHash (demoUsers ! 0))"
    by (simp add: demoEnv_def demo_user)
  have h5: "''d1'' = (if ''d1'' \<noteq> [] then ''d1'' else ''gd'')" by simp
  have h6: "issueTokenPair demoEnv 1000 (user_id (demoUsers ! 0)) (role (demoUsers ! 0))
      ''d1'' ''gf'' ''gt'' =
      Inr \<lparr>accessToken = ''A.u1'', refreshToken = ''R.gt'', refreshExpiresAt = 604801000\<rparr>"
    by (simp add: demo_issue demo_user)
  have h7: "create (newSession (user_id (demoUsers ! 0)) ''d1'' ''gf'' ''gt''
        (hashToken demoEnv (refreshToken
           \<lparr>accessToken = ''A.u1'', refreshToken = ''R.gt'', refreshExpiresAt = 604801000\<rparr>))
        None (refreshExpiresAt
           \<lparr>accessToken = ''A.u1'', refreshToken = ''R.gt'', refreshExpiresAt = 604801000\<rparr>))
      (revokeDeviceSessions 1000 (user_id (demoUsers ! 0)) ''d1'' demoLedger) = Inr reloginLedger"
    by (simp add: create_def revokeDeviceSessions_def updateMany_def demoLedger_def
        newSession_def reloginLedger_def demo_user demo_hash)
  from login_proceeds [OF h1 h2 demo_find_user h4 h5 h6 h7] show ?thesis by simp
qed

lemma demo_start:
  "now < 600000 \<Longrightarrow>
   refreshStart demoEnv now ''R.t1'' =
     AwaitFindOne \<lparr>sub = ''u1'', pDeviceId = ''d1'', pFamilyId = ''f1'', pTokenId = ''t1''\<rparr>
       ''#R.t1''"
  by (simp add: refreshStart_def demo_verify_t1 demo_hash)

lemma demo_step_find:
  "now < 700000 \<Longrightarrow>
   refreshStep demoEnv demoUsers now nid
     (AwaitFindOne \<lparr>sub = ''u1'', pDeviceId = ''d1'', pFamilyId = ''f1'', pTokenId = ''t1''\<rparr>
        ''#R.t1'') demoLedger =
     (AwaitFindById \<lparr>sub = ''u1'', pDeviceId = ''d1'', pFamilyId = ''f1'', pTokenId = ''t1''\<rparr>
        ''#R.t1'' ''u1'' 0, demoLedger)"
  by (simp add: demoLedger_def refreshFilter_def newSession_def demo_cast)

lemma demo_step_user:
  "refreshStep demoEnv demoUsers now nid
     (AwaitFindById \<lparr>sub = ''u1'', pDeviceId = ''d1'', pFamilyId = ''f1'', pTokenId = ''t1''\<rparr>
        ''#R.t1'' ''u1'' 0) L =
     (AwaitSaveConsumed \<lparr>sub = ''u1'', pDeviceId = ''d1'', pFamilyId = ''f1'', pTokenId = ''t1''\<rparr>
        ''#R.t1'' 0 (demoUsers ! 0)
        \<lparr>accessToken = ''A.u1'', refreshToken = ''R.'' @ nid, refreshExpiresAt = now + 604800000\<rparr>,
      L)"
  by (simp add: demo_findById demo_issue demo_user)

lemma demo_step_save:
  "refreshStep demoEnv demoUsers now nid
     (AwaitSaveConsumed \<lparr>sub = ''u1'', pDeviceId = ''d1'', pFamilyId = ''f1'', pTokenId = ''t1''\<rparr>
        ''#R.t1'' 0 (demoUsers ! 0)
        \<lparr>accessToken = a, refreshToken = tok, refreshExpiresAt = ex\<rparr>)
     L =
     (AwaitCreate
        (newSession ''u1'' ''d1'' ''f1'' nid (''#'' @ tok) (Some ''#R.t1'') ex)
        \<lparr>resAccessToken = a, resRefreshToken = tok, resDeviceId = ''d1''\<rparr>,
      saveConsumed now (''#'' @ tok) 0 L)"
  by (simp add: demo_user demo_hash)

lemma raced_create_first:
  "create (newSession ''u1'' ''d1'' ''f1'' ''t2'' ''#R.t2'' (Some ''#R.t1'') 604801000)
     (saveConsumed 1000 ''#R.t2'' 0 demoLedger) = Inr rotatedLedger"
  by (simp add: create_def saveConsumed_def demoLedger_def newSession_def rotatedLedger_def)

lemma raced_create_second:
  "create (newSession ''u1'' ''d1'' ''f1'' ''t3'' ''#R.t3'' (Some ''#R.t1'') 604801001)
     (saveConsumed 1001 ''#R.t3'' 0 rotatedLedger) = Inr forkedLedger"
  by (simp add: create_def saveConsumed_def newSession_def rotatedLedger_def forkedLedger_def)

section \<open>Properties stated by the specification\<close>

subsection \<open>Replay of a rotated credential\<close>

text \<open>
  C1. A credential is presented to \<^verbatim>\<open>/refresh\<close> twice: the first call succeeds, and
  at the second call the credential still verifies, to the same payload (its signed
  expiry has not passed in between). Then the second call fails with the rejected kind
  (\<^verbatim>\<open>'Refresh token reuse detected. All sessions revoked.'\<close>), and every session
  document of the credential's user (every document whose \<^verbatim>\<open>userId\<close> is the ObjectId
  \<^verbatim>\<open>payload.sub\<close> casts to) that the first call left behind, the active ones in
  particular, is revoked afterwards.
\<close>

theorem refresh_twice:
  assumes first: "refresh e users t1 nid1 presented L = (Inr resp, L1)"
    and v1: "verifyRefreshToken e t1 presented = Inr payload"
    and v2: "verifyRefreshToken e t2 presented = Inr payload"
  shows "fst (refresh e users t2 nid2 presented L1)
           = Inl (AuthError ''Refresh token reuse detected. All sessions revoked.'')
    \<and> isCredentialRejected (AuthError ''Refresh token reuse detected. All sessions revoked.'')
    \<and> length (snd (refresh e users t2 nid2 presented L1)) = length L1
    \<and> (\<forall>j<length L1. castObjectId e (sub payload) = Some (userId (L1 ! j)) \<longrightarrow>
           status (snd (refresh e users t2 nid2 presented L1) ! j) = revoked)"
proof -
  from refresh_success [OF first] obtain payload' i and user :: UserDocument
    and tokenPair :: TokenPair where
    ne: "presented \<noteq> []" and
    v1': "verifyRefreshToken e t1 presented = Inr payload'" and
    found': "findOne (refreshFilter e (hashToken e presented) payload') L = Some i" and
    created': "create (newSession (user_id user) (pDeviceId payload') (pFamilyId payload') nid1
                 (hashToken e (refreshToken tokenPair)) (Some (hashToken e presented))
                 (refreshExpiresAt tokenPair))
               (saveConsumed t1 (hashToken e (refreshToken tokenPair)) i L) = Inr L1"
    by (elim exE conjE) (rule that)
  from v1 v1' have same: "payload' = payload" by simp
  note found = found' [unfolded same] and created = created' [unfolded same]
  define doc where "doc = newSession (user_id user) (pDeviceId payload) (pFamilyId payload) nid1
                 (hashToken e (refreshToken tokenPair)) (Some (hashToken e presented))
                 (refreshExpiresAt tokenPair)"
  define h' where "h' = hashToken e (refreshToken tokenPair)"
  define uid where "uid = userId (L ! i)"
  from created have L1: "L1 = saveConsumed t1 h' i L @ [doc]"
    unfolding doc_def h'_def by (simp add: create_Inr)
  from found have i: "i < length L" by (simp add: findOne_Some)
  from found have cast: "castObjectId e (sub payload) = Some uid"
    unfolding uid_def by (rule found_cast)
  have found1: "findOne (refreshFilter e (hashToken e presented) payload) L1 = Some i"
    unfolding L1 using found by (rule findOne_after_rotation)
  from i have "status (L1 ! i) = consumed"
    by (simp add: L1 nth_append saveConsumed_length saveConsumed_nth_same)
  then have "status (L1 ! i) \<noteq> active" by simp
  with ne v2 cast found1 have
    "refresh e users t2 nid2 presented L1 =
       (Inl (AuthError ''Refresh token reuse detected. All sessions revoked.''),
        revokeAllUserSessions t2 uid ''REFRESH_TOKEN_REUSE_DETECTED'' L1)"
    by (rule refresh_reuse)
  then show ?thesis
    by (simp add: revokeAll_length revokeAll_nth isCredentialRejected_def cast)
qed

theorem refresh_twice_witness:
  "refresh demoEnv demoUsers 1000 ''t2'' ''R.t1'' demoLedger =
     (Inr \<lparr>resAccessToken = ''A.u1'', resRefreshToken = ''R.t2'', resDeviceId = ''d1''\<rparr>,
      rotatedLedger)
   \<and> fst (refresh demoEnv demoUsers 2000 ''t3'' ''R.t1'' rotatedLedger)
       = Inl (AuthError ''Refresh token reuse detected. All sessions revoked.'')
   \<and> status (rotatedLedger ! 1) = active \<and> status (rotatedLedger ! 3) = active
   \<and> status (snd (refresh demoEnv demoUsers 2000 ''t3'' ''R.t1'' rotatedLedger) ! 0) = revoked
   \<and> status (snd (refresh demoEnv demoUsers 2000 ''t3'' ''R.t1'' rotatedLedger) ! 1) = revoked
   \<and> status (snd (refresh demoEnv demoUsers 2000 ''t3'' ''R.t1'' rotatedLedger) ! 3) = revoked"
proof -
  have v1: "verifyRefreshToken demoEnv 1000 ''R.t1'' =
     Inr \<lparr>sub = ''u1'', pDeviceId = ''d1'', pFamilyId = ''f1'', pTokenId = ''t1''\<rparr>"
    by (simp add: demo_verify_t1)
  have v2: "verifyRefreshToken demoEnv 2000 ''R.t1'' =
     Inr \<lparr>sub = ''u1'', pDeviceId = ''d1'', pFamilyId = ''f1'', pTokenId = ''t1''\<rparr>"
    by (simp add: demo_verify_t1)
  have rows: "length rotatedLedger = 4" "userId (rotatedLedger ! 0) = ''u1''"
    "userId (rotatedLedger ! 1) = ''u1''" "userId (rotatedLedger ! 3) = ''u1''"
    "status (rotatedLedger ! 1) = active" "status (rotatedLedger ! 3) = active"
    by (simp_all add: rotatedLedger_def newSession_def)
  from refresh_twice [OF demo_rotation v1 v2, of "''t3''"] demo_rotation rows
  show ?thesis by (simp add: demo_cast)
qed

subsection \<open>Two refresh handlers in flight\<close>

text \<open>
  C2. The claim fails on the code. Two \<^verbatim>\<open>/refresh\<close> requests present the same active
  credential \<open>R.t1\<close>; both \<^verbatim>\<open>findOne\<close> calls are answered before either handler
  saves. Each handler has read \<^verbatim>\<open>status: 'active'\<close>, so each passes the reuse check;
  each \<^verbatim>\<open>save()\<close> then writes \<^verbatim>\<open>'consumed'\<close> without a condition on the stored
  status, and each \<^verbatim>\<open>Session.create\<close> inserts a successor. Both requests succeed, with
  different refresh tokens, and neither is rejected.
\<close>

theorem concurrent_rotations_both_succeed:
  "runSchedule demoEnv demoUsers (1000, ''t2'') (1001, ''t3'')
     [First, Second, First, Second, First, First, Second, Second]
     ((refreshStart demoEnv 1000 ''R.t1'', refreshStart demoEnv 1001 ''R.t1''), demoLedger)
   = ((Done (Inr \<lparr>resAccessToken = ''A.u1'', resRefreshToken = ''R.t2'', resDeviceId = ''d1''\<rparr>),
       Done (Inr \<lparr>resAccessToken = ''A.u1'', resRefreshToken = ''R.t3'', resDeviceId = ''d1''\<rparr>)),
      forkedLedger)"
  by (simp add: demo_start demo_step_find demo_step_user demo_step_save
      raced_create_first raced_create_second del: refreshStep.simps(1,4,5))

text \<open>
  When the second handler starts only after the first has finished, it is rejected.
\<close>

lemma serial_rotations_one_succeeds:
  "runSchedule demoEnv demoUsers (1000, ''t2'') (1001, ''t3'')
     [First, First, First, First, Second, Second, Second, Second]
     ((refreshStart demoEnv 1000 ''R.t1'', refreshStart demoEnv 1001 ''R.t1''), demoLedger)
   = ((Done (Inr \<lparr>resAccessToken = ''A.u1'', resRefreshToken = ''R.t2'', resDeviceId = ''d1''\<rparr>),
       Done (Inl (AuthError ''Refresh token reuse detected. All sessions revoked.''))),
      revokeAllUserSessions 1001 ''u1'' ''REFRESH_TOKEN_REUSE_DETECTED'' rotatedLedger)"
proof -
  have find2: "refreshStep demoEnv demoUsers 1001 ''t3''
     (AwaitFindOne \<lparr>sub = ''u1'', pDeviceId = ''d1'', pFamilyId = ''f1'', pTokenId = ''t1''\<rparr>
        ''#R.t1'') rotatedLedger =
     (AwaitRevokeAll ''u1'' ''REFRESH_TOKEN_REUSE_DETECTED''
        (AuthError ''Refresh token reuse detected. All sessions revoked.''), rotatedLedger)"
    by (simp add: rotatedLedger_def refreshFilter_def newSession_def demo_cast)
  show ?thesis
    by (simp add: demo_start demo_step_find demo_step_user demo_step_save
        raced_create_first find2 del: refreshStep.simps(1,4,5))
qed

subsection \<open>Status transitions\<close>

text \<open>
  C3, as amended. Each operation is taken as it runs alone, from its first store call to
  its last with no other handler's store call in between (\<open>refresh\<close> is that run of
  \<^verbatim>\<open>/refresh\<close>, by \<open>refreshAlone_refresh\<close>). Every document stays in the collection at
  its position. \<^verbatim>\<open>/login\<close> and its per-device revocation leave every document that
  is not active exactly as it was, and an active one stays active or becomes revoked.
  \<^verbatim>\<open>revokeAllUserSessions\<close> and \<^verbatim>\<open>/refresh\<close> leave every revoked document exactly as
  it was. Under \<^verbatim>\<open>revokeAllUserSessions\<close> any other document keeps its state or becomes
  revoked; under \<^verbatim>\<open>/refresh\<close> a consumed document stays consumed or becomes revoked,
  never active, and an active one may become consumed or revoked.
\<close>

theorem status_moves_forward:
  assumes "i < length L"
  shows "i < length (snd (login e users now gd gf gt em pw pd L))
    \<and> (status (L ! i) \<noteq> active \<longrightarrow> snd (login e users now gd gf gt em pw pd L) ! i = L ! i)
    \<and> (status (snd (login e users now gd gf gt em pw pd L) ! i) = status (L ! i) \<or>
        status (snd (login e users now gd gf gt em pw pd L) ! i) = revoked)
    \<and> (status (L ! i) \<noteq> active \<longrightarrow> revokeDeviceSessions nowd uidd dev L ! i = L ! i)
    \<and> (status (revokeDeviceSessions nowd uidd dev L ! i) = status (L ! i) \<or>
        status (revokeDeviceSessions nowd uidd dev L ! i) = revoked)
    \<and> (status (L ! i) = revoked \<longrightarrow> revokeAllUserSessions nowa uid reason L ! i = L ! i)
    \<and> (status (revokeAllUserSessions nowa uid reason L ! i) = status (L ! i) \<or>
        status (revokeAllUserSessions nowa uid reason L ! i) = revoked)
    \<and> i < length (snd (refresh e users nowr nid presented L))
    \<and> (status (L ! i) = revoked \<longrightarrow> snd (refresh e users nowr nid presented L) ! i = L ! i)
    \<and> forward (status (L ! i)) (status (snd (refresh e users nowr nid presented L) ! i))"
  using assms
  by (simp add: login_forward login_keeps login_status revokeDevice_keeps revokeDevice_status
      revokeAll_keeps revokeAll_status refresh_forward refresh_keeps_revoked)

theorem status_moves_forward_witness:
  "(0::nat) < length rotatedLedger
   \<and> status (rotatedLedger ! 0) = consumed
   \<and> snd (login demoEnv demoUsers 2000 ''gd'' ''gf'' ''gt''
         ''ada@example.org'' ''pw'' ''d1'' rotatedLedger) ! 0 = rotatedLedger ! 0
   \<and> revokeDeviceSessions 2000 ''u1'' ''d1'' rotatedLedger ! 0 = rotatedLedger ! 0
   \<and> forward consumed (status (snd (refresh demoEnv demoUsers 2000 ''t3'' ''R.t1''
         rotatedLedger) ! 0))
   \<and> (0::nat) < length reloginLedger
   \<and> status (reloginLedger ! 0) = revoked
   \<and> snd (login demoEnv demoUsers 2000 ''gd'' ''gf'' ''gt''
         ''ada@example.org'' ''pw'' ''d1'' reloginLedger) ! 0 = reloginLedger ! 0
   \<and> revokeAllUserSessions 2000 ''u1'' ''USER_NOT_FOUND'' reloginLedger ! 0 = reloginLedger ! 0
   \<and> snd (refresh demoEnv demoUsers 2000 ''t3'' ''R.t1'' reloginLedger) ! 0 = reloginLedger ! 0"
proof -
  have h: "(0::nat) < length rotatedLedger" by (simp add: rotatedLedger_def)
  have c: "status (rotatedLedger ! 0) = consumed"
    by (simp add: rotatedLedger_def newSession_def)
  have h': "(0::nat) < length reloginLedger" by (simp add: reloginLedger_def)
  have c': "status (reloginLedger ! 0) = revoked"
    by (simp add: reloginLedger_def newSession_def)
  from status_moves_forward [OF h, of demoEnv demoUsers 2000 "''gd''" "''gf''" "''gt''"
      "''ada@example.org''" "''pw''" "''d1''" 2000 "''u1''" "''d1''" 2000 "''u1''"
      "''USER_NOT_FOUND''" 2000 "''t3''" "''R.t1''"]
    status_moves_forward [OF h', of demoEnv demoUsers 2000 "''gd''" "''gf''" "''gt''"
      "''ada@example.org''" "''pw''" "''d1''" 2000 "''u1''" "''d1''" 2000 "''u1''"
      "''USER_NOT_FOUND''" 2000 "''t3''" "''R.t1''"] h c h' c'
  show ?thesis by simp
qed

text \<open>
  C3 as stated says that a consumed document never changes state again. It does: the
  filter of \<^verbatim>\<open>revokeAllUserSessions\<close> is \<^verbatim>\<open>status: { $ne: 'revoked' }\<close>, so the
  consumed document of a rotated credential becomes revoked when the function runs for
  its user, for instance when that credential is presented again.
\<close>

theorem consumed_link_revoked_counterexample:
  "status (rotatedLedger ! 0) = consumed
   \<and> status (revokeAllUserSessions 2000 ''u1'' ''REFRESH_TOKEN_REUSE_DETECTED'' rotatedLedger ! 0)
       = revoked
   \<and> status (snd (refresh demoEnv demoUsers 2000 ''t3'' ''R.t1'' rotatedLedger) ! 0) = revoked"
proof -
  have c: "status (rotatedLedger ! 0) = consumed" "userId (rotatedLedger ! 0) = ''u1''"
    "0 < length rotatedLedger"
    by (simp_all add: rotatedLedger_def newSession_def)
  have r: "status (revokeAllUserSessions 2000 ''u1'' ''REFRESH_TOKEN_REUSE_DETECTED''
      rotatedLedger ! 0) = revoked"
    using c by (simp add: revokeAll_nth)
  have h1: "''R.t1'' \<noteq> []" by simp
  have v: "verifyRefreshToken demoEnv 2000 ''R.t1'' =
     Inr \<lparr>sub = ''u1'', pDeviceId = ''d1'', pFamilyId = ''f1'', pTokenId = ''t1''\<rparr>"
    by (simp add: demo_verify_t1)
  have cast: "castObjectId demoEnv
      (sub \<lparr>sub = ''u1'', pDeviceId = ''d1'', pFamilyId = ''f1'', pTokenId = ''t1''\<rparr>)
      = Some ''u1''"
    by (simp add: demo_cast)
  have na: "status (rotatedLedger ! 0) \<noteq> active" using c by simp
  from refresh_reuse [OF h1 v cast demo_find_t1_rotated na, of demoUsers "''t3''"] c r
  show ?thesis by simp
qed

text \<open>
  The statement above is about operations that run alone. Between the \<^verbatim>\<open>findOne\<close> and
  the \<^verbatim>\<open>save()\<close> of a \<^verbatim>\<open>/refresh\<close> handler another handler may revoke the document
  read, and the unconditional \<^verbatim>\<open>save()\<close> then sets the revoked document to consumed:
  the defect of C2, seen on one document. Here the second request presents the unknown
  credential \<open>R.t7\<close> of the same user while the first rotates \<open>R.t1\<close>.
\<close>

lemma interleaved_save_after_revocation:
  "runSchedule demoEnv demoUsers (1000, ''t2'') (1001, ''t3'')
     [First, First, Second, Second]
     ((refreshStart demoEnv 1000 ''R.t1'', refreshStart demoEnv 1001 ''R.t7''), demoLedger)
   = ((AwaitSaveConsumed
         \<lparr>sub = ''u1'', pDeviceId = ''d1'', pFamilyId = ''f1'', pTokenId = ''t1''\<rparr>
         ''#R.t1'' 0 (demoUsers ! 0)
         \<lparr>accessToken = ''A.u1'', refreshToken = ''R.t2'', refreshExpiresAt = 604801000\<rparr>,
       Done (Inl (AuthError ''Refresh token is invalid''))),
      revokedLedger)
   \<and> runSchedule demoEnv demoUsers (1000, ''t2'') (1001, ''t3'')
     [First, First, Second, Second, First, First]
     ((refreshStart demoEnv 1000 ''R.t1'', refreshStart demoEnv 1001 ''R.t7''), demoLedger)
   = ((Done (Inr \<lparr>resAccessToken = ''A.u1'', resRefreshToken = ''R.t2'', resDeviceId = ''d1''\<rparr>),
       Done (Inl (AuthError ''Refresh token is invalid''))),
      resavedLedger)
   \<and> status (revokedLedger ! 0) = revoked
   \<and> status (resavedLedger ! 0) = consumed
   \<and> status (resavedLedger ! 3) = active"
proof -
  have start7: "refreshStart demoEnv 1001 ''R.t7'' =
      AwaitFindOne \<lparr>sub = ''u1'', pDeviceId = ''d1'', pFamilyId = ''f7'', pTokenId = ''t7''\<rparr>
        ''#R.t7''"
    by (simp add: refreshStart_def demo_verify_t7 demo_hash)
  have find7: "refreshStep demoEnv demoUsers 1001 ''t3''
      (AwaitFindOne \<lparr>sub = ''u1'', pDeviceId = ''d1'', pFamilyId = ''f7'', pTokenId = ''t7''\<rparr>
        ''#R.t7'') demoLedger =
      (AwaitRevokeAll ''u1'' ''REFRESH_TOKEN_REUSE_OR_UNKNOWN''
         (AuthError ''Refresh token is invalid''), demoLedger)"
    by (simp add: demoLedger_def refreshFilter_def newSession_def demo_cast)
  have revoke7: "revokeAllUserSessions 1001 ''u1'' ''REFRESH_TOKEN_REUSE_OR_UNKNOWN'' demoLedger
      = revokedLedger"
    by (simp add: revokeAllUserSessions_def updateMany_def demoLedger_def newSession_def
        revokedLedger_def)
  have save: "create (newSession ''u1'' ''d1'' ''f1'' ''t2'' ''#R.t2'' (Some ''#R.t1'') 604801000)
      (saveConsumed 1000 ''#R.t2'' 0 revokedLedger) = Inr resavedLedger"
    by (simp add: create_def saveConsumed_def newSession_def revokedLedger_def resavedLedger_def)
  have st: "status (revokedLedger ! 0) = revoked" "status (resavedLedger ! 0) = consumed"
    "status (resavedLedger ! 3) = active"
    by (simp_all add: revokedLedger_def resavedLedger_def newSession_def)
  show ?thesis
    by (simp add: demo_start demo_step_find demo_step_user demo_step_save start7 find7
        revoke7 save st del: refreshStep.simps(1,4,5))
qed

subsection \<open>Rotation\<close>

text \<open>
  C4. After every successful \<^verbatim>\<open>/refresh\<close>, the document found for the presented
  credential, active before, is consumed, with \<^verbatim>\<open>replacedByHash\<close> the hash of the
  refresh token returned in the response; the document created last is active, carries
  that hash as its \<^verbatim>\<open>refreshTokenHash\<close>, has \<^verbatim>\<open>parentTokenHash\<close> equal to the consumed
  document's \<^verbatim>\<open>refreshTokenHash\<close>, the consumed document's user and \<^verbatim>\<open>familyId\<close>,
  the \<^verbatim>\<open>deviceId\<close> signed into the presented credential, and as \<^verbatim>\<open>tokenId\<close> the value
  \<^verbatim>\<open>generateTokenId()\<close> returned for this request. The lookup does not compare device
  ids: old and new document have the same \<^verbatim>\<open>deviceId\<close> where the consumed document
  records the device signed into its credential, which is how \<^verbatim>\<open>/login\<close> and
  \<^verbatim>\<open>/refresh\<close> write every document (\<open>login_records_credential\<close>,
  \<open>refresh_records_credential\<close>, \<open>recorded_credential_device\<close>).
\<close>

theorem refresh_chain_integrity:
  assumes ok: "refresh e users now nextTokenId presented L = (Inr resp, L')"
    and v: "verifyRefreshToken e now presented = Inr payload"
    and found: "findOne (refreshFilter e (hashToken e presented) payload) L = Some i"
  shows "length L' = Suc (length L) \<and> i < length L
    \<and> status (L ! i) = active
    \<and> status (L' ! i) = consumed
    \<and> replacedByHash (L' ! i) = Some (hashToken e (resRefreshToken resp))
    \<and> consumedAt (L' ! i) = Some now
    \<and> refreshTokenHash (L' ! i) = refreshTokenHash (L ! i)
    \<and> refreshTokenHash (L ! i) = hashToken e presented
    \<and> status (last L') = active
    \<and> refreshTokenHash (last L') = hashToken e (resRefreshToken resp)
    \<and> parentTokenHash (last L') = Some (refreshTokenHash (L' ! i))
    \<and> userId (last L') = userId (L' ! i)
    \<and> familyId (last L') = familyId (L' ! i)
    \<and> deviceId (last L') = pDeviceId payload
    \<and> resDeviceId resp = pDeviceId payload
    \<and> (deviceId (L ! i) = pDeviceId payload \<longrightarrow> deviceId (last L') = deviceId (L' ! i))
    \<and> tokenId (last L') = nextTokenId
    \<and> replacedByHash (last L') = None
    \<and> expiresAt (last L') = now + 604800000"
proof -
  from refresh_success [OF ok] obtain payload' i' and user :: UserDocument
    and tokenPair :: TokenPair where
    v': "verifyRefreshToken e now presented = Inr payload'" and
    found': "findOne (refreshFilter e (hashToken e presented) payload') L = Some i'" and
    act': "status (L ! i') = active" and
    usr': "findById e users (sub payload') = Inr (Some user)" and
    iss': "issueTokenPair e now (user_id user) (role user) (pDeviceId payload')
             (pFamilyId payload') nextTokenId = Inr tokenPair" and
    created': "create (newSession (user_id user) (pDeviceId payload') (pFamilyId payload')
                 nextTokenId (hashToken e (refreshToken tokenPair))
                 (Some (hashToken e presented)) (refreshExpiresAt tokenPair))
               (saveConsumed now (hashToken e (refreshToken tokenPair)) i' L) = Inr L'" and
    resp: "resp = \<lparr>resAccessToken = accessToken tokenPair,
                    resRefreshToken = refreshToken tokenPair,
                    resDeviceId = pDeviceId payload'\<rparr>"
    by (elim exE conjE) (rule that)
  from v v' have same: "payload' = payload" by simp
  from found found' same have i': "i' = i" by simp
  note act = act' [unfolded i'] and usr = usr' [unfolded same]
    and iss = iss' [unfolded same] and created = created' [unfolded same i']
  define h' where "h' = hashToken e (refreshToken tokenPair)"
  define doc where "doc = newSession (user_id user) (pDeviceId payload) (pFamilyId payload)
      nextTokenId h' (Some (hashToken e presented)) (refreshExpiresAt tokenPair)"
  from created have L': "L' = saveConsumed now h' i L @ [doc]"
    unfolding doc_def h'_def by (simp add: create_Inr)
  from found have i: "i < length L" and P: "refreshFilter e (hashToken e presented) payload (L ! i)"
    by (simp_all add: findOne_Some)
  have old: "L' ! i = (L ! i)\<lparr>status := consumed, consumedAt := Some now,
      replacedByHash := Some h'\<rparr>"
    using i by (simp add: L' nth_append saveConsumed_length saveConsumed_nth_same)
  have new: "last L' = doc" by (simp add: L')
  have len: "length L' = Suc (length L)" by (simp add: L' saveConsumed_length)
  from findById_Some [OF usr] found_cast [OF found]
  have uid: "user_id user = userId (L ! i)" by simp
  have exp: "refreshExpiresAt tokenPair = now + 604800000"
    using iss by (rule issueTokenPair_expiry)
  have r: "resRefreshToken resp = refreshToken tokenPair" "resDeviceId resp = pDeviceId payload"
    by (simp_all add: resp same)
  from P have flt: "refreshTokenHash (L ! i) = hashToken e presented"
    "familyId (L ! i) = pFamilyId payload"
    by (simp_all add: refreshFilter_def)
  show ?thesis
    by (simp add: len i act old new doc_def newSession_def r h'_def flt uid exp)
qed

theorem refresh_chain_integrity_witness:
  "refresh demoEnv demoUsers 1000 ''t2'' ''R.t1'' demoLedger =
     (Inr \<lparr>resAccessToken = ''A.u1'', resRefreshToken = ''R.t2'', resDeviceId = ''d1''\<rparr>,
      rotatedLedger)
   \<and> status (demoLedger ! 0) = active
   \<and> deviceId (demoLedger ! 0) = ''d1''
   \<and> status (rotatedLedger ! 0) = consumed
   \<and> replacedByHash (rotatedLedger ! 0) = Some ''#R.t2''
   \<and> refreshTokenHash (last rotatedLedger) = ''#R.t2''
   \<and> parentTokenHash (last rotatedLedger) = Some (refreshTokenHash (rotatedLedger ! 0))
   \<and> familyId (last rotatedLedger) = familyId (rotatedLedger ! 0)
   \<and> deviceId (last rotatedLedger) = deviceId (rotatedLedger ! 0)
   \<and> tokenId (last rotatedLedger) = ''t2''
   \<and> status (last rotatedLedger) = active"
proof -
  have v: "verifyRefreshToken demoEnv 1000 ''R.t1'' =
     Inr \<lparr>sub = ''u1'', pDeviceId = ''d1'', pFamilyId = ''f1'', pTokenId = ''t1''\<rparr>"
    by (simp add: demo_verify_t1)
  have d: "deviceId (demoLedger ! 0) = ''d1''"
    by (simp add: demoLedger_def newSession_def)
  from refresh_chain_integrity [OF demo_rotation v demo_find_t1] demo_rotation d
  show ?thesis by (auto simp: demo_hash)
qed

subsection \<open>Login\<close>

text \<open>
  C5. After every successful \<^verbatim>\<open>/login\<close>, for the user found and the device id of the
  response: exactly one session document of that user and device is active; every
  document of that user and device that was active before is revoked with reason
  \<^verbatim>\<open>DEVICE_RELOGIN\<close>, and no other document changed; the device id is the one the
  caller supplied, or what \<^verbatim>\<open>generateDeviceId()\<close> returned when the caller supplied
  none; and the document created last is an active head (no parent, no successor) whose
  \<^verbatim>\<open>familyId\<close> is what \<^verbatim>\<open>generateFamilyId()\<close> returned, the only document of that
  family when no earlier document carries that id.
\<close>

theorem login_single_active:
  assumes ok: "login e users now genDeviceId genFamilyId genTokenId em password providedDeviceId L
                 = (Inr resp, L')"
    and u: "findUserByEmail users em = Some user"
  shows "resDeviceId resp = (if providedDeviceId \<noteq> [] then providedDeviceId else genDeviceId)
    \<and> length (filter (\<lambda>s. userId s = user_id user \<and> deviceId s = resDeviceId resp \<and>
                           status s = active) L') = 1
    \<and> length L' = Suc (length L)
    \<and> (\<forall>i<length L. userId (L ! i) = user_id user \<and> deviceId (L ! i) = resDeviceId resp \<and>
            status (L ! i) = active \<longrightarrow>
          status (L' ! i) = revoked \<and> revokedReason (L' ! i) = Some ''DEVICE_RELOGIN'')
    \<and> (\<forall>i<length L. \<not> (userId (L ! i) = user_id user \<and> deviceId (L ! i) = resDeviceId resp \<and>
            status (L ! i) = active) \<longrightarrow> L' ! i = L ! i)
    \<and> last L' = newSession (user_id user) (resDeviceId resp) genFamilyId genTokenId
                   (hashToken e (resRefreshToken resp)) None (now + 604800000)
    \<and> ((\<forall>s\<in>set L. familyId s \<noteq> genFamilyId) \<longrightarrow>
          length (filter (\<lambda>s. familyId s = genFamilyId) L') = 1)"
proof -
  define dev where "dev = (if providedDeviceId \<noteq> [] then providedDeviceId else genDeviceId)"
  from login_success [OF ok] obtain user' :: UserDocument and tokenPair :: TokenPair where
    u': "findUserByEmail users em = Some user'" and
    iss': "issueTokenPair e now (user_id user') (role user') dev genFamilyId genTokenId
             = Inr tokenPair" and
    created': "create (newSession (user_id user') dev genFamilyId genTokenId
                 (hashToken e (refreshToken tokenPair)) None (refreshExpiresAt tokenPair))
               (revokeDeviceSessions now (user_id user') dev L) = Inr L'" and
    resp: "resp = \<lparr>resAccessToken = accessToken tokenPair,
                    resRefreshToken = refreshToken tokenPair, resDeviceId = dev\<rparr>"
    by (elim exE conjE) (rule that [unfolded dev_def])
  from u u' have same: "user' = user" by simp
  note iss = iss' [unfolded same] and created = created' [unfolded same]
  define doc where "doc = newSession (user_id user) dev genFamilyId genTokenId
      (hashToken e (refreshToken tokenPair)) None (refreshExpiresAt tokenPair)"
  from created have L': "L' = revokeDeviceSessions now (user_id user) dev L @ [doc]"
    unfolding doc_def by (simp add: create_Inr)
  have exp: "refreshExpiresAt tokenPair = now + 604800000"
    using iss by (rule issueTokenPair_expiry)
  have r: "resDeviceId resp = dev" "resRefreshToken resp = refreshToken tokenPair"
    by (simp_all add: resp)
  have docf: "userId doc = user_id user" "deviceId doc = dev" "status doc = active"
    "familyId doc = genFamilyId"
    by (simp_all add: doc_def newSession_def)
  have one: "length (filter (\<lambda>s. userId s = user_id user \<and> deviceId s = dev \<and>
                           status s = active) L') = 1"
    by (simp add: L' revokeDevice_none_active docf)
  have fam: "length (filter (\<lambda>s. familyId s = genFamilyId) L') = 1"
    if "\<forall>s\<in>set L. familyId s \<noteq> genFamilyId"
  proof -
    from that have "filter (\<lambda>s. familyId s = genFamilyId) L = []"
      by (simp add: filter_empty_conv)
    then have "filter (\<lambda>s. familyId s = genFamilyId)
        (revokeDeviceSessions now (user_id user) dev L) = []"
      by (simp add: revokeDevice_familyId)
    then show ?thesis by (simp add: L' docf)
  qed
  have old: "L' ! i = revokeDeviceSessions now (user_id user) dev L ! i" if "i < length L" for i
    using that by (simp add: L' nth_append revokeDevice_length)
  have c1: "resDeviceId resp = (if providedDeviceId \<noteq> [] then providedDeviceId else genDeviceId)"
    by (simp add: r dev_def)
  have c3: "length L' = Suc (length L)" by (simp add: L' revokeDevice_length)
  have c4: "\<forall>i<length L. userId (L ! i) = user_id user \<and> deviceId (L ! i) = resDeviceId resp \<and>
            status (L ! i) = active \<longrightarrow>
          status (L' ! i) = revoked \<and> revokedReason (L' ! i) = Some ''DEVICE_RELOGIN''"
    by (simp add: old r revokeDevice_nth)
  have c5: "\<forall>i<length L. \<not> (userId (L ! i) = user_id user \<and> deviceId (L ! i) = resDeviceId resp \<and>
            status (L ! i) = active) \<longrightarrow> L' ! i = L ! i"
    by (simp add: old r revokeDevice_nth)
  have c6: "last L' = newSession (user_id user) (resDeviceId resp) genFamilyId genTokenId
                   (hashToken e (resRefreshToken resp)) None (now + 604800000)"
    by (simp add: L' doc_def r exp)
  from one have c2: "length (filter (\<lambda>s. userId s = user_id user \<and>
      deviceId s = resDeviceId resp \<and> status s = active) L') = 1"
    by (simp add: r)
  from c1 c2 c3 c4 c5 c6 fam show ?thesis by blast
qed

theorem login_single_active_witness:
  "login demoEnv demoUsers 1000 ''gd'' ''gf'' ''gt'' ''ada@example.org'' ''pw'' ''d1'' demoLedger =
     (Inr \<lparr>resAccessToken = ''A.u1'', resRefreshToken = ''R.gt'', resDeviceId = ''d1''\<rparr>,
      reloginLedger)
   \<and> findUserByEmail demoUsers ''ada@example.org'' = Some (demoUsers ! 0)
   \<and> length (filter (\<lambda>s. userId s = ''u1'' \<and> deviceId s = ''d1'' \<and> status s = active)
               reloginLedger) = 1
   \<and> status (demoLedger ! 0) = active
   \<and> status (reloginLedger ! 0) = revoked
   \<and> revokedReason (reloginLedger ! 0) = Some ''DEVICE_RELOGIN''
   \<and> reloginLedger ! 1 = demoLedger ! 1
   \<and> last reloginLedger = newSession ''u1'' ''d1'' ''gf'' ''gt'' ''#R.gt'' None 604801000
   \<and> length (filter (\<lambda>s. familyId s = ''gf'') reloginLedger) = 1"
proof -
  have fresh: "\<forall>s\<in>set demoLedger. familyId s \<noteq> ''gf''"
    by (simp add: demoLedger_def newSession_def)
  have rows: "length demoLedger = 3" "userId (demoLedger ! 0) = ''u1''"
    "deviceId (demoLedger ! 0) = ''d1''" "status (demoLedger ! 0) = active"
    "deviceId (demoLedger ! 1) = ''d2''"
    by (simp_all add: demoLedger_def newSession_def)
  from login_single_active [OF demo_login demo_find_user] demo_login demo_find_user fresh rows
  show ?thesis by (auto simp: demo_user demo_hash)
qed

subsection \<open>Failures of the refresh handler\<close>

text \<open>
  C6, as amended. When the presented credential verifies, its subject is an ObjectId
  (the cast of \<^verbatim>\<open>payload.sub\<close> succeeds) and no session document matches its
  (hash, userId, familyId, tokenId) quadruple, \<^verbatim>\<open>/refresh\<close> fails with the rejected
  kind (\<^verbatim>\<open>'Refresh token is invalid'\<close>) and leaves every session of that subject
  revoked: the active ones with reason \<^verbatim>\<open>REFRESH_TOKEN_REUSE_OR_UNKNOWN\<close>. Sessions of
  other users are untouched.
\<close>

theorem refresh_unknown_credential:
  assumes "presented \<noteq> []"
    and "verifyRefreshToken e now presented = Inr payload"
    and "castObjectId e (sub payload) = Some uid"
    and "\<forall>s\<in>set L. \<not> refreshFilter e (hashToken e presented) payload s"
  shows "fst (refresh e users now nextTokenId presented L) = Inl (AuthError ''Refresh token is invalid'')
    \<and> isCredentialRejected (AuthError ''Refresh token is invalid'')
    \<and> length (snd (refresh e users now nextTokenId presented L)) = length L
    \<and> (\<forall>i<length L. userId (L ! i) = uid \<longrightarrow>
           status (snd (refresh e users now nextTokenId presented L) ! i) = revoked)
    \<and> (\<forall>i<length L. userId (L ! i) = uid \<and> status (L ! i) = active \<longrightarrow>
           revokedReason (snd (refresh e users now nextTokenId presented L) ! i)
             = Some ''REFRESH_TOKEN_REUSE_OR_UNKNOWN'')
    \<and> (\<forall>i<length L. userId (L ! i) \<noteq> uid \<longrightarrow>
           snd (refresh e users now nextTokenId presented L) ! i = L ! i)"
proof -
  from assms(4) have "findOne (refreshFilter e (hashToken e presented) payload) L = None"
    by (simp add: findOne_None)
  with assms(1,2,3) have
    "refresh e users now nextTokenId presented L =
       (Inl (AuthError ''Refresh token is invalid''),
        revokeAllUserSessions now uid ''REFRESH_TOKEN_REUSE_OR_UNKNOWN'' L)"
    by (rule refresh_unknown)
  then show ?thesis
    by (simp add: revokeAll_length revokeAll_nth isCredentialRejected_def)
qed

theorem refresh_unknown_credential_witness:
  "verifyRefreshToken demoEnv 1000 ''R.t7'' =
     Inr \<lparr>sub = ''u1'', pDeviceId = ''d1'', pFamilyId = ''f7'', pTokenId = ''t7''\<rparr>
   \<and> castObjectId demoEnv ''u1'' = Some ''u1''
   \<and> fst (refresh demoEnv demoUsers 1000 ''t2'' ''R.t7'' demoLedger)
       = Inl (AuthError ''Refresh token is invalid'')
   \<and> status (demoLedger ! 0) = active \<and> status (demoLedger ! 1) = active
   \<and> status (snd (refresh demoEnv demoUsers 1000 ''t2'' ''R.t7'' demoLedger) ! 0) = revoked
   \<and> status (snd (refresh demoEnv demoUsers 1000 ''t2'' ''R.t7'' demoLedger) ! 1) = revoked
   \<and> snd (refresh demoEnv demoUsers 1000 ''t2'' ''R.t7'' demoLedger) ! 2 = demoLedger ! 2"
proof -
  have h1: "''R.t7'' \<noteq> []" by simp
  have h2: "verifyRefreshToken demoEnv 1000 ''R.t7'' =
     Inr \<lparr>sub = ''u1'', pDeviceId = ''d1'', pFamilyId = ''f7'', pTokenId = ''t7''\<rparr>"
    by (simp add: demo_verify_t7)
  have c: "castObjectId demoEnv ''u1'' = Some ''u1''" by (simp add: demo_cast)
  have h3: "castObjectId demoEnv
      (sub \<lparr>sub = ''u1'', pDeviceId = ''d1'', pFamilyId = ''f7'', pTokenId = ''t7''\<rparr>)
      = Some ''u1''"
    by (simp add: demo_cast)
  have h4: "\<forall>s\<in>set demoLedger. \<not> refreshFilter demoEnv (hashToken demoEnv ''R.t7'')
      \<lparr>sub = ''u1'', pDeviceId = ''d1'', pFamilyId = ''f7'', pTokenId = ''t7''\<rparr> s"
    by (simp add: demoLedger_def refreshFilter_def newSession_def demo_hash demo_cast)
  have len: "length demoLedger = 3" by (simp add: demoLedger_def)
  have rows: "userId (demoLedger ! 0) = ''u1''" "userId (demoLedger ! 1) = ''u1''"
    "userId (demoLedger ! 2) = ''u9''"
    "status (demoLedger ! 0) = active" "status (demoLedger ! 1) = active"
    by (simp_all add: demoLedger_def newSession_def)
  from refresh_unknown_credential [OF h1 h2 h3 h4, of demoUsers "''t2''"] h2 c len rows
  show ?thesis by simp
qed

text \<open>
  C6 as stated covers every credential that verifies. Where the subject signed into
  the credential is not an ObjectId, \<^verbatim>\<open>Session.findOne\<close> throws \<^verbatim>\<open>CastError\<close> on the
  \<^verbatim>\<open>userId\<close> of its filter: the request fails with that error, which is not an
  \<^verbatim>\<open>AuthError\<close>, and \<^verbatim>\<open>revokeAllUserSessions\<close> is not called. The credential \<open>R.x1\<close>
  verifies, and no document has its hash, subject, family and token id.
\<close>

theorem uncastable_subject_counterexample:
  "verifyRefreshToken demoEnv 1000 ''R.x1'' =
     Inr \<lparr>sub = ''nobody'', pDeviceId = ''d1'', pFamilyId = ''f1'', pTokenId = ''x1''\<rparr>
   \<and> findOne (\<lambda>s. refreshTokenHash s = hashToken demoEnv ''R.x1'' \<and> userId s = ''nobody'' \<and>
                  familyId s = ''f1'' \<and> tokenId s = ''x1'') demoLedger = None
   \<and> refresh demoEnv demoUsers 1000 ''t2'' ''R.x1'' demoLedger
       = (Inl (CastError ''userId''), demoLedger)
   \<and> \<not> isCredentialRejected (CastError ''userId'')"
proof -
  have h1: "''R.x1'' \<noteq> []" by simp
  have h2: "verifyRefreshToken demoEnv 1000 ''R.x1'' =
     Inr \<lparr>sub = ''nobody'', pDeviceId = ''d1'', pFamilyId = ''f1'', pTokenId = ''x1''\<rparr>"
    by (simp add: verifyRefreshToken_def demoEnv_def demoVerify_def readSecret_def)
  have h3: "castObjectId demoEnv
      (sub \<lparr>sub = ''nobody'', pDeviceId = ''d1'', pFamilyId = ''f1'', pTokenId = ''x1''\<rparr>)
      = None"
    by (simp add: demo_cast)
  have h4: "findOne (\<lambda>s. refreshTokenHash s = hashToken demoEnv ''R.x1'' \<and>
      userId s = ''nobody'' \<and> familyId s = ''f1'' \<and> tokenId s = ''x1'') demoLedger = None"
    by (simp add: demoLedger_def newSession_def demo_hash)
  from refresh_uncastable [OF h1 h2 h3, of demoUsers "''t2''" demoLedger] h2 h4
  show ?thesis by (simp add: isCredentialRejected_def)
qed

text \<open>
  C7. When the presented credential verifies and the document found for it is active
  with \<^verbatim>\<open>expiresAt\<close> not after the clock, \<^verbatim>\<open>/refresh\<close> fails with the expired kind
  (\<^verbatim>\<open>'Refresh token is expired'\<close>), that document becomes revoked with reason
  \<^verbatim>\<open>REFRESH_TOKEN_EXPIRED\<close>, and every other document of the collection (of this user
  or any other) is unchanged.
\<close>

theorem refresh_expired_link:
  assumes "presented \<noteq> []"
    and "verifyRefreshToken e now presented = Inr payload"
    and "findOne (refreshFilter e (hashToken e presented) payload) L = Some i"
    and "status (L ! i) = active"
    and "expiresAt (L ! i) \<le> now"
  shows "fst (refresh e users now nextTokenId presented L) = Inl (AuthError ''Refresh token is expired'')
    \<and> isCredentialExpired (AuthError ''Refresh token is expired'')
    \<and> length (snd (refresh e users now nextTokenId presented L)) = length L
    \<and> status (snd (refresh e users now nextTokenId presented L) ! i) = revoked
    \<and> revokedReason (snd (refresh e users now nextTokenId presented L) ! i)
          = Some ''REFRESH_TOKEN_EXPIRED''
    \<and> (\<forall>j<length L. j \<noteq> i \<longrightarrow>
           snd (refresh e users now nextTokenId presented L) ! j = L ! j)"
proof -
  from assms(3) have i: "i < length L" by (simp add: findOne_Some)
  from assms(1,2) found_cast [OF assms(3)] assms(3,4,5) have
    "refresh e users now nextTokenId presented L =
       (Inl (AuthError ''Refresh token is expired''), saveExpired now i L)"
    by (rule refresh_expired)
  with i show ?thesis
    by (simp add: saveExpired_length saveExpired_nth_same saveExpired_nth_other
        isCredentialExpired_def)
qed

theorem refresh_expired_link_witness:
  "findOne (refreshFilter demoEnv (hashToken demoEnv ''R.t1'')
        \<lparr>sub = ''u1'', pDeviceId = ''d1'', pFamilyId = ''f1'', pTokenId = ''t1''\<rparr>) shortLedger = Some 0
   \<and> status (shortLedger ! 0) = active \<and> expiresAt (shortLedger ! 0) \<le> 2000
   \<and> fst (refresh demoEnv demoUsers 2000 ''t2'' ''R.t1'' shortLedger)
       = Inl (AuthError ''Refresh token is expired'')
   \<and> status (snd (refresh demoEnv demoUsers 2000 ''t2'' ''R.t1'' shortLedger) ! 0) = revoked
   \<and> snd (refresh demoEnv demoUsers 2000 ''t2'' ''R.t1'' shortLedger) ! 1 = shortLedger ! 1
   \<and> status (shortLedger ! 1) = active"
proof -
  have h1: "''R.t1'' \<noteq> []" by simp
  have h2: "verifyRefreshToken demoEnv 2000 ''R.t1'' =
     Inr \<lparr>sub = ''u1'', pDeviceId = ''d1'', pFamilyId = ''f1'', pTokenId = ''t1''\<rparr>"
    by (simp add: demo_verify_t1)
  have h3: "findOne (refreshFilter demoEnv (hashToken demoEnv ''R.t1'')
        \<lparr>sub = ''u1'', pDeviceId = ''d1'', pFamilyId = ''f1'', pTokenId = ''t1''\<rparr>) shortLedger = Some 0"
    by (simp add: shortLedger_def refreshFilter_def newSession_def demo_hash demo_cast)
  have h4: "status (shortLedger ! 0) = active"
    by (simp add: shortLedger_def newSession_def)
  have h5: "expiresAt (shortLedger ! 0) \<le> 2000"
    by (simp add: shortLedger_def newSession_def)
  have len: "length shortLedger = 2" "status (shortLedger ! 1) = active"
    by (simp_all add: shortLedger_def newSession_def)
  from refresh_expired_link [OF h1 h2 h3 h4 h5, of demoUsers "''t2''"] h3 h4 h5 len
  show ?thesis by simp
qed

text \<open>
  C8. When a token is presented (the request's \<^verbatim>\<open>refreshToken\<close> is not empty) and
  \<^verbatim>\<open>verifyRefreshToken\<close> fails on it, for whatever cause (\<^verbatim>\<open>jwt.verify\<close> throws on
  a malformed, tampered or expired token, the payload is not a refresh payload, or the
  secret is missing), \<^verbatim>\<open>/refresh\<close> fails with that invalid-credential error and the
  session collection is exactly what it was before the call.
\<close>

theorem refresh_invalid_credential:
  assumes "presented \<noteq> []"
    and "verifyRefreshToken e now presented = Inl err"
  shows "refresh e users now nextTokenId presented L = (Inl err, L) \<and> isInvalidCredential err"
  using assms by (simp add: refresh_unverified verifyRefreshToken_Inl)

theorem refresh_invalid_credential_witness:
  "''garbage'' \<noteq> [] \<and>
   verifyRefreshToken demoEnv 1000 ''garbage'' = Inl (AuthError ''Invalid or expired refresh token'') \<and>
   refresh demoEnv demoUsers 1000 ''t2'' ''garbage'' demoLedger =
     (Inl (AuthError ''Invalid or expired refresh token''), demoLedger)"
proof -
  have h1: "''garbage'' \<noteq> []" by simp
  note h2 = demo_verify_garbage [of 1000]
  from refresh_invalid_credential [OF h1 h2] h1 h2 show ?thesis by simp
qed

subsection \<open>Bulk revocation twice\<close>

text \<open>
  C9. Calling \<^verbatim>\<open>revokeAllUserSessions\<close> a second time directly after a first call, for the
  same user and with any reasons and clock readings, leaves the collection exactly as
  the first call left it: no document changes state (or any other field). The function
  is total, so the second call cannot fail.
\<close>

theorem revokeAllUserSessions_idempotent:
  "revokeAllUserSessions now2 uid reason2 (revokeAllUserSessions now1 uid reason1 L)
     = revokeAllUserSessions now1 uid reason1 L"
  by (rule nth_equalityI) (simp_all add: revokeAll_length revokeAll_nth)

subsection \<open>A subject without a user record\<close>

text \<open>
  C10. When the presented credential verifies and the document found for it is active
  and not expired, but \<^verbatim>\<open>User.findById\<close> finds no user for the payload's subject,
  \<^verbatim>\<open>/refresh\<close> fails with the authentication error \<^verbatim>\<open>'User account not found'\<close>,
  which is none of the invalid, rejected, expired or configuration kinds, and every
  session of that subject (every document whose \<^verbatim>\<open>userId\<close> is the ObjectId
  \<^verbatim>\<open>payload.sub\<close> casts to) that was not revoked is now revoked with reason
  \<^verbatim>\<open>USER_NOT_FOUND\<close>; all other documents are unchanged.
\<close>

theorem refresh_user_not_found:
  assumes "presented \<noteq> []"
    and "verifyRefreshToken e now presented = Inr payload"
    and "findOne (refreshFilter e (hashToken e presented) payload) L = Some i"
    and "status (L ! i) = active"
    and "now < expiresAt (L ! i)"
    and "findById e users (sub payload) = Inr None"
  shows "fst (refresh e users now nextTokenId presented L) = Inl (AuthError ''User account not found'')
    \<and> \<not> isInvalidCredential (AuthError ''User account not found'')
    \<and> \<not> isCredentialRejected (AuthError ''User account not found'')
    \<and> \<not> isCredentialExpired (AuthError ''User account not found'')
    \<and> \<not> isConfigError (AuthError ''User account not found'')
    \<and> length (snd (refresh e users now nextTokenId presented L)) = length L
    \<and> (\<forall>j<length L. castObjectId e (sub payload) = Some (userId (L ! j)) \<and>
            status (L ! j) \<noteq> revoked \<longrightarrow>
           status (snd (refresh e users now nextTokenId presented L) ! j) = revoked \<and>
           revokedReason (snd (refresh e users now nextTokenId presented L) ! j)
             = Some ''USER_NOT_FOUND'')
    \<and> (\<forall>j<length L. \<not> (castObjectId e (sub payload) = Some (userId (L ! j)) \<and>
            status (L ! j) \<noteq> revoked) \<longrightarrow>
           snd (refresh e users now nextTokenId presented L) ! j = L ! j)"
proof -
  define uid where "uid = userId (L ! i)"
  from assms(3) have cast: "castObjectId e (sub payload) = Some uid"
    unfolding uid_def by (rule found_cast)
  from assms(1,2) cast assms(3-6) have
    "refresh e users now nextTokenId presented L =
       (Inl (AuthError ''User account not found''),
        revokeAllUserSessions now uid ''USER_NOT_FOUND'' L)"
    by (rule refresh_no_user)
  then show ?thesis
    by (simp add: revokeAll_length revokeAll_nth isInvalidCredential_def
        isCredentialRejected_def isCredentialExpired_def isConfigError_def cast)
qed

theorem refresh_user_not_found_witness:
  "findOne (refreshFilter demoEnv (hashToken demoEnv ''R.g1'')
        \<lparr>sub = ''u9'', pDeviceId = ''d9'', pFamilyId = ''f9'', pTokenId = ''g1''\<rparr>) demoLedger = Some 2
   \<and> status (demoLedger ! 2) = active \<and> 1000 < expiresAt (demoLedger ! 2)
   \<and> findById demoEnv demoUsers ''u9'' = Inr None
   \<and> fst (refresh demoEnv demoUsers 1000 ''t2'' ''R.g1'' demoLedger)
       = Inl (AuthError ''User account not found'')
   \<and> status (snd (refresh demoEnv demoUsers 1000 ''t2'' ''R.g1'' demoLedger) ! 2) = revoked
   \<and> revokedReason (snd (refresh demoEnv demoUsers 1000 ''t2'' ''R.g1'' demoLedger) ! 2)
       = Some ''USER_NOT_FOUND''
   \<and> snd (refresh demoEnv demoUsers 1000 ''t2'' ''R.g1'' demoLedger) ! 0 = demoLedger ! 0"
proof -
  have h1: "''R.g1'' \<noteq> []" by simp
  have h2: "verifyRefreshToken demoEnv 1000 ''R.g1'' =
     Inr \<lparr>sub = ''u9'', pDeviceId = ''d9'', pFamilyId = ''f9'', pTokenId = ''g1''\<rparr>"
    by (simp add: demo_verify_g1)
  have h3: "findOne (refreshFilter demoEnv (hashToken demoEnv ''R.g1'')
        \<lparr>sub = ''u9'', pDeviceId = ''d9'', pFamilyId = ''f9'', pTokenId = ''g1''\<rparr>) demoLedger = Some 2"
    by (simp add: demoLedger_def refreshFilter_def newSession_def demo_hash demo_cast)
  have h4: "status (demoLedger ! 2) = active"
    by (simp add: demoLedger_def newSession_def)
  have h5: "1000 < expiresAt (demoLedger ! 2)"
    by (simp add: demoLedger_def newSession_def)
  have h6: "findById demoEnv demoUsers
      (sub \<lparr>sub = ''u9'', pDeviceId = ''d9'', pFamilyId = ''f9'', pTokenId = ''g1''\<rparr>) = Inr None"
    by (simp add: findById_def demoUsers_def demo_cast)
  have rows: "length demoLedger = 3" "userId (demoLedger ! 0) = ''u1''"
    "userId (demoLedger ! 2) = ''u9''"
    by (simp_all add: demoLedger_def newSession_def)
  from refresh_user_not_found [OF h1 h2 h3 h4 h5 h6, of "''t2''"] h3 h4 h5 h6 rows
  show ?thesis by (simp add: demo_cast)
qed

end
